theory Spec2Isabelle
  imports Main
begin

section \<open>Bytes, JSON values and exceptions\<close>

text \<open>
  Python \<^verbatim>\<open>bytes\<close> are lists of 8-bit characters. Decoded JSON payloads are the
  values of \<^verbatim>\<open>json.loads\<close>; floating point numbers are left out.
\<close>

type_synonym bytes = string

datatype json =
    JNull
  | JBool bool
  | JInt int
  | JString string
  | JArray "json list"
  | JObject "(string \<times> json) list"

text \<open>Python truthiness (\<^verbatim>\<open>if decoded:\<close>) of a decoded JSON value.\<close>

fun truthy :: "json \<Rightarrow> bool" where
  "truthy JNull = False"
| "truthy (JBool b) = b"
| "truthy (JInt i) = (i \<noteq> 0)"
| "truthy (JString s) = (s \<noteq> [])"
| "truthy (JArray xs) = (xs \<noteq> [])"
| "truthy (JObject kvs) = (kvs \<noteq> [])"

text \<open>
  Python \<^verbatim>\<open>len\<close> of a JSON value: defined on strings, lists and dicts; every other
  value raises \<^verbatim>\<open>TypeError\<close> (\<open>None\<close> here).
\<close>

fun pyLen :: "json \<Rightarrow> nat option" where
  "pyLen (JString s) = Some (length s)"
| "pyLen (JArray xs) = Some (length xs)"
| "pyLen (JObject kvs) = Some (length kvs)"
| "pyLen _ = None"

text \<open>\<^verbatim>\<open>sum(map(len, data))\<close>, failing at the first element without a length.\<close>

fun sumLen :: "json list \<Rightarrow> nat option" where
  "sumLen [] = Some 0"
| "sumLen (x # xs) =
     (case pyLen x of
        None \<Rightarrow> None
      | Some n \<Rightarrow> (case sumLen xs of None \<Rightarrow> None | Some m \<Rightarrow> Some (n + m)))"

text \<open>
  The exceptions that the modelled code raises. \<open>NoTransition\<close> is automat's exception for
  an input that the current state does not accept. \<open>InvalidData\<close> carries its reason.
\<close>

datatype error =
    NoTransition
  | AssertionError
  | AttributeError
  | RuntimeError
  | TypeError
  | KeyError
  | AlreadyCalledError
  | InvalidData bytes

text \<open>
  A method either returns normally in a new state (\<open>Inr\<close>) or propagates an exception
  (\<open>Inl\<close>). The exception keeps the state reached when it was raised: Python does not
  roll back the mutations done before a \<^verbatim>\<open>raise\<close>.
\<close>

type_synonym 's outcome = "(error \<times> 's) + 's"

definition raise :: "error \<Rightarrow> 's \<Rightarrow> 's outcome" where
  "raise e s = Inl (e, s)"

text \<open>The state in which a call ends, whether it returned or raised.\<close>

fun final :: "'s outcome \<Rightarrow> 's" where
  "final (Inl (e, s)) = s"
| "final (Inr s) = s"

text \<open>Statements executed in order; the first exception ends the sequence.\<close>

fun seq :: "('s \<Rightarrow> 's outcome) list \<Rightarrow> 's \<Rightarrow> 's outcome" where
  "seq [] s = Inr s"
| "seq (f # fs) s = (case f s of Inl x \<Rightarrow> Inl x | Inr s' \<Rightarrow> seq fs s')"

section \<open>Wire constants\<close>

text \<open>The values of \<^verbatim>\<open>INVALID_DATA\<close>.\<close>

definition NO_PAYLOAD :: bytes where
  "NO_PAYLOAD = ''Payload expected.\<newline>''"

definition BAD_JSON :: bytes where
  "BAD_JSON = ''Broken JSON encoding.\<newline>''"

text \<open>The constants of \<^verbatim>\<open>DISCONNECT\<close> and their values.\<close>

datatype disconnect = GO_AWAY | STILL_OPEN

fun disconnectValue :: "disconnect \<Rightarrow> json" where
  "disconnectValue GO_AWAY = JArray [JInt 3000, JString ''Go away!'']"
| "disconnectValue STILL_OPEN = JArray [JInt 2010, JString ''Another connection still open'']"

section \<open>JSON encoding\<close>

text \<open>
  Modelled from the spec: \<^verbatim>\<open>txdarn.compat.asJSON\<close>, which \<^verbatim>\<open>sockJSJSON\<close> calls with
  \<^verbatim>\<open>separators=(',', ':')\<close>, is not among the source files. The spec asks for JSON with no
  inter-token whitespace, a single comma between items and a single colon between key and
  value. Strings are quoted with the standard JSON escapes of an ASCII-only encoder; the
  optional encoder hook (\<^verbatim>\<open>cls\<close>) is the default one.
\<close>

definition hexDigit :: "nat \<Rightarrow> char" where
  "hexDigit n = ''0123456789abcdef'' ! (n mod 16)"

definition escapeChar :: "char \<Rightarrow> string" where
  "escapeChar c =
     (if c = CHR 0x22 then [CHR 0x5C, CHR 0x22]
      else if c = CHR 0x5C then [CHR 0x5C, CHR 0x5C]
      else if c = CHR 0x0A then [CHR 0x5C, CHR ''n'']
      else if c = CHR 0x0D then [CHR 0x5C, CHR ''r'']
      else if c = CHR 0x09 then [CHR 0x5C, CHR ''t'']
      else if c = CHR 0x0C then [CHR 0x5C, CHR ''f'']
      else if c = CHR 0x08 then [CHR 0x5C, CHR ''b'']
      else if 32 \<le> (of_char c :: nat) \<and> (of_char c :: nat) \<le> 126 then [c]
      else [CHR 0x5C, CHR ''u'', CHR ''0'', CHR ''0'',
            hexDigit ((of_char c :: nat) div 16), hexDigit (of_char c :: nat)])"

definition quoteString :: "string \<Rightarrow> bytes" where
  "quoteString s = CHR 0x22 # concat (map escapeChar s) @ [CHR 0x22]"

fun digits :: "nat \<Rightarrow> string" where
  "digits n =
     (if n < 10 then [''0123456789'' ! n]
      else digits (n div 10) @ [''0123456789'' ! (n mod 10)])"

declare digits.simps [simp del]

definition intJSON :: "int \<Rightarrow> bytes" where
  "intJSON i = (if i < 0 then CHR ''-'' # digits (nat (- i)) else digits (nat i))"

fun joinWith :: "bytes \<Rightarrow> bytes list \<Rightarrow> bytes" where
  "joinWith sep [] = []"
| "joinWith sep [x] = x"
| "joinWith sep (x # y # ys) = x @ sep @ joinWith sep (y # ys)"

fun sockJSJSON :: "json \<Rightarrow> bytes" where
  "sockJSJSON JNull = ''null''"
| "sockJSJSON (JBool b) = (if b then ''true'' else ''false'')"
| "sockJSJSON (JInt i) = intJSON i"
| "sockJSJSON (JString s) = quoteString s"
| "sockJSJSON (JArray xs) = ''['' @ joinWith '','' (map sockJSJSON xs) @ '']''"
| "sockJSJSON (JObject kvs) =
     ''{'' @ joinWith '','' (map (\<lambda>(k, v). quoteString k @ '':'' @ sockJSJSON v) kvs) @ ''}''"

section \<open>Framing (SockJSWireProtocolWrapper)\<close>

text \<open>\<^verbatim>\<open>closeFrame\<close>: the byte \<open>c\<close> followed by the JSON of the reason's value.\<close>

definition closeFrame :: "disconnect \<Rightarrow> bytes" where
  "closeFrame reason = ''c'' @ sockJSJSON (disconnectValue reason)"

text \<open>The frame that \<^verbatim>\<open>writeData\<close> builds: the byte \<open>a\<close> followed by the JSON array.\<close>

definition dataFrame :: "json list \<Rightarrow> bytes" where
  "dataFrame data = ''a'' @ sockJSJSON (JArray data)"

text \<open>
  \<^verbatim>\<open>SockJSWireProtocolWrapper.dataReceived\<close>. The decoder \<^verbatim>\<open>txdarn.compat.fromJSON\<close> is not
  among the source files and is a parameter: \<open>None\<close> stands for its \<^verbatim>\<open>ValueError\<close>. The
  method \<^verbatim>\<open>jsonReceived\<close> is looked up on \<^verbatim>\<open>self\<close>, so a subclass may override it; it is a
  parameter too.
\<close>

definition wire_dataReceived ::
  "(bytes \<Rightarrow> json option) \<Rightarrow> (json \<Rightarrow> 's \<Rightarrow> 's outcome) \<Rightarrow> bytes \<Rightarrow> 's \<Rightarrow> 's outcome" where
  "wire_dataReceived fromJSON jsonReceived data s =
     (if data = [] then raise (InvalidData NO_PAYLOAD) s
      else (case fromJSON data of
              None \<Rightarrow> raise (InvalidData BAD_JSON) s
            | Some decoded \<Rightarrow> jsonReceived decoded s))"

section \<open>The session state\<close>

text \<open>
  An HTTP request object is an external collaborator, known by its identity. The session
  calls \<^verbatim>\<open>write\<close>, \<^verbatim>\<open>finish\<close> and \<^verbatim>\<open>notifyFinish\<close> on it; the model records the
  byte strings written, the number of \<^verbatim>\<open>finish\<close> calls and the number of cancelled
  finish notifiers.
\<close>

type_synonym request_id = nat

record request_rec =
  written :: "bytes list"
  finished :: nat
  notifierCancels :: nat

text \<open>The states of \<^verbatim>\<open>RequestSessionMachine\<close>.\<close>

datatype rsm_state =
    NeverConnected
  | ConnectedHaveTransport
  | ConnectedNoTransportEmptyBuffer
  | ConnectedNoTransportPending
  | LoseConnectionEmptyBuffer
  | LoseConnectionPending
  | Disconnected

text \<open>The states of \<^verbatim>\<open>SockJSProtocolMachine\<close>.\<close>

datatype sockjs_state = NotYetConnected | Connected | SJDisconnected

text \<open>
  The class of the session: the base \<^verbatim>\<open>RequestSessionProtocolWrapper\<close>, \<^verbatim>\<open>XHRSession\<close>
  or \<^verbatim>\<open>XHRStreamingSession\<close>.
\<close>

datatype transport = Polling | XHR | XHRStreaming

text \<open>
  The protocol that the session wraps: a \<^verbatim>\<open>SockJSProtocol\<close> around the application's
  protocol, or the application's protocol itself (as in the repository's tests, where it
  only records what it is told).
\<close>

datatype wrapped = SockJS | Application

text \<open>Reasons of \<^verbatim>\<open>connectionLost\<close>: the value of the failure.\<close>

datatype reason = ConnectionDone | ConnectionLost | SessionTimeout | OtherReason string

text \<open>
  Calls that leave the modelled code: to the application's protocol, to the factory, to the
  transport of the request and to the termination deferred.
\<close>

datatype event =
    RegisterProtocol
  | UnregisterProtocol
  | TransportLoseConnection
  | AppMakeConnection
  | AppDataReceived json
  | AppConnectionLost reason
  | TerminationErrback reason
  | TerminationExpired

text \<open>
  One session: the \<^verbatim>\<open>RequestSessionMachine\<close> (\<open>mstate\<close>, \<open>buffer\<close>, \<open>closeReason\<close>),
  the protocol wrapper (\<open>request\<close>, \<open>finishedNotifier\<close>, \<open>disconnecting\<close>, \<open>hasTransport\<close>
  for its \<^verbatim>\<open>transport\<close>, \<open>machineAlive\<close> for its \<^verbatim>\<open>sessionMachine\<close>, \<open>terminated\<close> for
  its termination deferred, \<open>bytesWritten\<close>), its \<^verbatim>\<open>TimeoutClock\<close>
  (\<open>expired\<close>, \<open>timeoutCall\<close>), the wrapped \<^verbatim>\<open>SockJSProtocol\<close> with its machine and
  \<^verbatim>\<open>HeartbeatClock\<close> (\<open>sjAlive\<close>, \<open>sjState\<close>, \<open>hbStopped\<close>, \<open>hbPending\<close>), and the
  environment (\<open>requests\<close>, \<open>events\<close>).
\<close>

record session =
  kind :: transport
  maximumBytes :: nat
  wrappedProtocol :: wrapped
  mstate :: rsm_state
  buffer :: "json list"
  closeReason :: "disconnect option"
  request :: "request_id option"
  finishedNotifier :: "request_id option"
  disconnecting :: bool
  hasTransport :: bool
  machineAlive :: bool
  terminated :: bool
  bytesWritten :: nat
  expired :: bool
  timeoutCall :: bool
  sjAlive :: bool
  sjState :: sockjs_state
  hbStopped :: bool
  hbPending :: bool
  requests :: "request_id \<Rightarrow> request_rec"
  events :: "event list"

text \<open>A session as \<^verbatim>\<open>buildProtocol\<close> returns it, before any request was attached.\<close>

definition newSession :: "transport \<Rightarrow> nat \<Rightarrow> wrapped \<Rightarrow> session" where
  "newSession k m w =
     \<lparr> kind = k, maximumBytes = m, wrappedProtocol = w,
       mstate = NeverConnected, buffer = [], closeReason = None,
       request = None, finishedNotifier = None, disconnecting = False, hasTransport = False,
       machineAlive = True, terminated = False, bytesWritten = 0,
       expired = False, timeoutCall = False,
       sjAlive = True, sjState = NotYetConnected, hbStopped = False, hbPending = False,
       requests = (\<lambda>r. \<lparr> written = [], finished = 0, notifierCancels = 0 \<rparr>),
       events = [] \<rparr>"

definition emit :: "event \<Rightarrow> session \<Rightarrow> session outcome" where
  "emit e s = Inr (s\<lparr>events := events s @ [e]\<rparr>)"

subsection \<open>The request object\<close>

definition request_write :: "request_id \<Rightarrow> bytes \<Rightarrow> session \<Rightarrow> session outcome" where
  "request_write r data s =
     Inr (s\<lparr>requests := (requests s)(r := (requests s r)\<lparr>written := written (requests s r) @ [data]\<rparr>)\<rparr>)"

definition request_finish :: "request_id \<Rightarrow> session \<Rightarrow> session outcome" where
  "request_finish r s =
     Inr (s\<lparr>requests := (requests s)(r := (requests s r)\<lparr>finished := finished (requests s r) + 1\<rparr>)\<rparr>)"

definition notifier_cancel :: "request_id \<Rightarrow> session \<Rightarrow> session outcome" where
  "notifier_cancel r s =
     Inr (s\<lparr>requests := (requests s)(r := (requests s r)\<lparr>notifierCancels := notifierCancels (requests s r) + 1\<rparr>)\<rparr>)"

subsection \<open>TimeoutClock\<close>

definition timeout_reset :: "session \<Rightarrow> session outcome" where
  "timeout_reset s =
     (if expired s then raise RuntimeError s
      else if timeoutCall s then Inr (s\<lparr>timeoutCall := False\<rparr>)
      else Inr s)"

definition timeout_start :: "session \<Rightarrow> session outcome" where
  "timeout_start s =
     (if expired s then raise RuntimeError s
      else if \<not> expired s \<and> \<not> timeoutCall s then Inr (s\<lparr>timeoutCall := True\<rparr>)
      else Inr s)"

definition timeout_stop :: "session \<Rightarrow> session outcome" where
  "timeout_stop s =
     (if \<not> expired s \<and> timeoutCall s then Inr (s\<lparr>timeoutCall := False\<rparr>) else Inr s)"

subsection \<open>HeartbeatClock\<close>

text \<open>
  \<open>hbPending\<close> says that \<^verbatim>\<open>pendingHeartbeat\<close> is set. The reactor's firing of the pending
  call is not modelled; the heartbeat that it asks for is the action \<open>Heartbeat\<close> below.
\<close>

definition heartbeat_schedule :: "session \<Rightarrow> session outcome" where
  "heartbeat_schedule s =
     (if hbStopped s then raise RuntimeError s
      else Inr (s\<lparr>hbPending := True\<rparr>))"

definition heartbeat_stop :: "session \<Rightarrow> session outcome" where
  "heartbeat_stop s =
     (if \<not> hbStopped s then Inr (s\<lparr>hbStopped := True, hbPending := False\<rparr>) else Inr s)"

section \<open>RequestSessionProtocolWrapper: methods that do not re-enter the machine\<close>

text \<open>\<^verbatim>\<open>write\<close>: every payload goes to the current request, followed by a newline.\<close>

definition rspw_write :: "bytes \<Rightarrow> session \<Rightarrow> session outcome" where
  "rspw_write data s =
     (case request s of
        None \<Rightarrow> raise AttributeError s
      | Some r \<Rightarrow> request_write r (data @ ''\<newline>'') s)"

definition closeOtherRequest :: "request_id \<Rightarrow> disconnect \<Rightarrow> session \<Rightarrow> session outcome" where
  "closeOtherRequest r reason s =
     seq [request_write r (closeFrame reason @ ''\<newline>''), request_finish r] s"

text \<open>
  The framing methods of \<^verbatim>\<open>SockJSWireProtocolWrapper\<close>, whose \<^verbatim>\<open>self.write\<close> is the
  method above.
\<close>

definition wire_writeOpen :: "session \<Rightarrow> session outcome" where
  "wire_writeOpen s = rspw_write ''o'' s"

definition wire_writeHeartbeat :: "session \<Rightarrow> session outcome" where
  "wire_writeHeartbeat s = rspw_write ''h'' s"

definition wire_writeData :: "json list \<Rightarrow> session \<Rightarrow> session outcome" where
  "wire_writeData data s = rspw_write (dataFrame data) s"

definition beginRequest :: "session \<Rightarrow> session outcome" where
  "beginRequest s =
     (case request s of
        None \<Rightarrow> raise AttributeError s
      | Some r \<Rightarrow> seq [\<lambda>s. Inr (s\<lparr>finishedNotifier := Some r\<rparr>), timeout_reset] s)"

definition establishConnection :: "request_id \<Rightarrow> session \<Rightarrow> session outcome" where
  "establishConnection r s = seq [\<lambda>s. Inr (s\<lparr>hasTransport := True\<rparr>), emit RegisterProtocol] s"

definition completeHeartbeat :: "session \<Rightarrow> session outcome" where
  "completeHeartbeat s = wire_writeHeartbeat s"

text \<open>\<^verbatim>\<open>ProtocolWrapper.loseConnection\<close> of Twisted, reached through \<^verbatim>\<open>completeLoseConnection\<close>.\<close>

definition completeLoseConnection :: "session \<Rightarrow> session outcome" where
  "completeLoseConnection s =
     seq [\<lambda>s. Inr (s\<lparr>disconnecting := True\<rparr>),
          \<lambda>s. if hasTransport s then emit TransportLoseConnection s else raise AttributeError s] s"

definition finishCurrentRequest :: "session \<Rightarrow> session outcome" where
  "finishCurrentRequest s =
     seq [\<lambda>s. (case finishedNotifier s of None \<Rightarrow> Inr s | Some n \<Rightarrow> notifier_cancel n s),
          \<lambda>s. (case request s of None \<Rightarrow> raise AttributeError s | Some r \<Rightarrow> request_finish r s),
          \<lambda>s. Inr (s\<lparr>request := None\<rparr>),
          \<lambda>s. Inr (s\<lparr>finishedNotifier := None\<rparr>),
          timeout_start] s"

section \<open>RequestSessionMachine\<close>

text \<open>
  One row of the machine, \<^verbatim>\<open>state.upon(input, enter=..., outputs=[...])\<close>: automat moves to
  the state \<open>enter\<close> first and runs the outputs in order afterwards. An input without a row
  for the current state raises \<open>NoTransition\<close> and changes nothing. Each input below lists
  the rows of the source, one state a line. The machine's reference to its session is
  cleared only on entering \<open>Disconnected\<close>, which accepts no input.
\<close>

definition upon :: "rsm_state \<Rightarrow> (session \<Rightarrow> session outcome) list \<Rightarrow> session \<Rightarrow> session outcome" where
  "upon enter outputs s = seq outputs (s\<lparr>mstate := enter\<rparr>)"

text \<open>
  A call of the wrapper on \<^verbatim>\<open>self.sessionMachine\<close>, which is \<^verbatim>\<open>None\<close> after
  \<^verbatim>\<open>connectionLost\<close>.
\<close>

definition withMachine :: "(session \<Rightarrow> session outcome) \<Rightarrow> session \<Rightarrow> session outcome" where
  "withMachine f s = (if machineAlive s then f s else raise AttributeError s)"

subsection \<open>detach\<close>

definition closeRequest :: "session \<Rightarrow> session outcome" where
  "closeRequest s = finishCurrentRequest s"

definition rsm_detach :: "session \<Rightarrow> session outcome" where
  "rsm_detach s =
     (case mstate s of
        ConnectedHaveTransport \<Rightarrow> upon ConnectedNoTransportEmptyBuffer [closeRequest] s
      | ConnectedNoTransportEmptyBuffer \<Rightarrow> upon ConnectedNoTransportEmptyBuffer [] s
      | ConnectedNoTransportPending \<Rightarrow> upon ConnectedNoTransportPending [] s
      | LoseConnectionPending \<Rightarrow> upon LoseConnectionPending [] s
      | _ \<Rightarrow> raise NoTransition s)"

definition detachFromRequest :: "session \<Rightarrow> session outcome" where
  "detachFromRequest s = withMachine rsm_detach s"

subsection \<open>write\<close>

text \<open>
  \<^verbatim>\<open>completeWrite\<close>, which \<^verbatim>\<open>XHRStreamingSession\<close> overrides: after the frame is written
  it adds the lengths of the messages to \<open>bytesWritten\<close> and detaches once the total is at
  least \<open>maximumBytes\<close>.
\<close>

definition countBytes :: "json list \<Rightarrow> session \<Rightarrow> session outcome" where
  "countBytes data s =
     (case sumLen data of
        None \<Rightarrow> raise TypeError s
      | Some n \<Rightarrow> Inr (s\<lparr>bytesWritten := bytesWritten s + n\<rparr>))"

definition detachAtMaximum :: "session \<Rightarrow> session outcome" where
  "detachAtMaximum s =
     (if bytesWritten s \<ge> maximumBytes s
      then seq [\<lambda>s. Inr (s\<lparr>bytesWritten := 0\<rparr>), detachFromRequest] s
      else Inr s)"

definition completeWrite :: "json list \<Rightarrow> session \<Rightarrow> session outcome" where
  "completeWrite data s =
     (case kind s of
        XHRStreaming \<Rightarrow> seq [wire_writeData data, countBytes data, detachAtMaximum] s
      | _ \<Rightarrow> wire_writeData data s)"

definition directWrite :: "json list \<Rightarrow> session \<Rightarrow> session outcome" where
  "directWrite data s = completeWrite data s"

definition bufferWrite :: "json list \<Rightarrow> session \<Rightarrow> session outcome" where
  "bufferWrite data s = Inr (s\<lparr>buffer := buffer s @ data\<rparr>)"

definition rsm_write :: "json list \<Rightarrow> session \<Rightarrow> session outcome" where
  "rsm_write data s =
     (case mstate s of
        ConnectedHaveTransport \<Rightarrow> upon ConnectedHaveTransport [directWrite data] s
      | ConnectedNoTransportEmptyBuffer \<Rightarrow> upon ConnectedNoTransportPending [bufferWrite data] s
      | ConnectedNoTransportPending \<Rightarrow> upon ConnectedNoTransportPending [bufferWrite data] s
      | _ \<Rightarrow> raise NoTransition s)"

text \<open>\<^verbatim>\<open>writeData\<close> of the wrapper, which \<^verbatim>\<open>XHRSession\<close> overrides to detach afterwards.\<close>

definition writeData :: "json list \<Rightarrow> session \<Rightarrow> session outcome" where
  "writeData data s =
     (case kind s of
        XHR \<Rightarrow> seq [withMachine (rsm_write data), detachFromRequest] s
      | _ \<Rightarrow> withMachine (rsm_write data) s)"

subsection \<open>writeOpen and the wrapped protocol\<close>

text \<open>The prelude of \<^verbatim>\<open>XHRStreamingSession\<close>: \<^verbatim>\<open>b'h' * 2048\<close>.\<close>

definition prelude :: bytes where
  "prelude = replicate 2048 (CHR ''h'')"

text \<open>
  \<^verbatim>\<open>writeOpen\<close>: the base class writes the open frame, \<^verbatim>\<open>XHRSession\<close> detaches after it,
  \<^verbatim>\<open>XHRStreamingSession\<close> writes its prelude before it.
\<close>

definition writeOpen :: "session \<Rightarrow> session outcome" where
  "writeOpen s =
     (case kind s of
        Polling \<Rightarrow> wire_writeOpen s
      | XHR \<Rightarrow> seq [wire_writeOpen, detachFromRequest] s
      | XHRStreaming \<Rightarrow> seq [rspw_write prelude, wire_writeOpen] s)"

text \<open>
  A call of \<^verbatim>\<open>SockJSProtocol\<close> on its \<^verbatim>\<open>sockJSMachine\<close>, which is \<^verbatim>\<open>None\<close> after its
  \<^verbatim>\<open>connectionLost\<close>.
\<close>

definition withSockJS :: "(session \<Rightarrow> session outcome) \<Rightarrow> session \<Rightarrow> session outcome" where
  "withSockJS f s = (if sjAlive s then f s else raise AttributeError s)"

text \<open>
  \<^verbatim>\<open>SockJSProtocolMachine.connect\<close>: from \<open>notYetConnected\<close> it enters \<open>connected\<close>, writes
  the open frame to its transport (the session) and schedules the heartbeat.
\<close>

definition sockjs_connect :: "session \<Rightarrow> session outcome" where
  "sockjs_connect s =
     (case sjState s of
        NotYetConnected \<Rightarrow> seq [writeOpen, heartbeat_schedule] (s\<lparr>sjState := Connected\<rparr>)
      | _ \<Rightarrow> raise NoTransition s)"

text \<open>\<^verbatim>\<open>SockJSProtocolMachine.receive\<close> hands the data back in \<open>connected\<close> only.\<close>

definition sockjs_receive :: "session \<Rightarrow> session outcome" where
  "sockjs_receive s =
     (case sjState s of
        Connected \<Rightarrow> Inr s
      | _ \<Rightarrow> raise NoTransition s)"

text \<open>\<^verbatim>\<open>SockJSProtocolMachine.close\<close>: stops the heartbeat; idempotent once disconnected.\<close>

definition sockjs_close :: "session \<Rightarrow> session outcome" where
  "sockjs_close s =
     (case sjState s of
        Connected \<Rightarrow> seq [heartbeat_stop] (s\<lparr>sjState := SJDisconnected\<rparr>)
      | SJDisconnected \<Rightarrow> Inr s
      | NotYetConnected \<Rightarrow> raise NoTransition s)"

text \<open>
  \<^verbatim>\<open>wrappedProtocol.makeConnection(self)\<close>. A \<^verbatim>\<open>SockJSProtocol\<close> runs its
  \<^verbatim>\<open>connectionMade\<close> and then connects the application's protocol; its registration with
  its own factory is not recorded.
\<close>

definition wrapped_makeConnection :: "session \<Rightarrow> session outcome" where
  "wrapped_makeConnection s =
     (case wrappedProtocol s of
        Application \<Rightarrow> emit AppMakeConnection s
      | SockJS \<Rightarrow> seq [withSockJS sockjs_connect, emit AppMakeConnection] s)"

text \<open>\<^verbatim>\<open>wrappedProtocol.dataReceived(decoded)\<close>.\<close>

definition wrapped_dataReceived :: "json \<Rightarrow> session \<Rightarrow> session outcome" where
  "wrapped_dataReceived decoded s =
     (case wrappedProtocol s of
        Application \<Rightarrow> emit (AppDataReceived decoded) s
      | SockJS \<Rightarrow> seq [withSockJS sockjs_receive, emit (AppDataReceived decoded)] s)"

text \<open>\<^verbatim>\<open>wrappedProtocol.connectionLost(reason)\<close>.\<close>

definition wrapped_connectionLost :: "reason \<Rightarrow> session \<Rightarrow> session outcome" where
  "wrapped_connectionLost r s =
     (case wrappedProtocol s of
        Application \<Rightarrow> emit (AppConnectionLost r) s
      | SockJS \<Rightarrow> seq [withSockJS sockjs_close,
                      \<lambda>s. Inr (s\<lparr>sjAlive := False\<rparr>),
                      emit (AppConnectionLost r)] s)"

definition completeConnection :: "session \<Rightarrow> session outcome" where
  "completeConnection s = wrapped_makeConnection s"

text \<open>
  \<^verbatim>\<open>completeDataReceived\<close> is \<^verbatim>\<open>SockJSWireProtocolWrapper.dataReceived\<close> with the inherited
  \<^verbatim>\<open>jsonReceived\<close>, which passes the decoded value to the wrapped protocol.
\<close>

definition jsonReceived :: "json \<Rightarrow> session \<Rightarrow> session outcome" where
  "jsonReceived decoded s = wrapped_dataReceived decoded s"

definition completeDataReceived :: "(bytes \<Rightarrow> json option) \<Rightarrow> bytes \<Rightarrow> session \<Rightarrow> session outcome" where
  "completeDataReceived fromJSON data s = wire_dataReceived fromJSON jsonReceived data s"

text \<open>\<^verbatim>\<open>completeConnectionLost\<close> is \<^verbatim>\<open>ProtocolWrapper.connectionLost\<close> of Twisted.\<close>

definition completeConnectionLost :: "reason \<Rightarrow> session \<Rightarrow> session outcome" where
  "completeConnectionLost r s = seq [emit UnregisterProtocol, wrapped_connectionLost r] s"

subsection \<open>The other outputs\<close>

definition openRequest :: "request_id \<Rightarrow> session \<Rightarrow> session outcome" where
  "openRequest r s =
     (if request s \<noteq> None then raise AssertionError s else Inr (s\<lparr>request := Some r\<rparr>))"

definition flushBuffer :: "request_id \<Rightarrow> session \<Rightarrow> session outcome" where
  "flushBuffer r s =
     (if request s \<noteq> Some r then raise AssertionError s
      else seq [writeData (buffer s), \<lambda>s. Inr (s\<lparr>buffer := []\<rparr>)] s)"

definition dumpBuffer :: "session \<Rightarrow> session outcome" where
  "dumpBuffer s = Inr (s\<lparr>buffer := []\<rparr>)"

definition directHeartbeat :: "session \<Rightarrow> session outcome" where
  "directHeartbeat s = completeHeartbeat s"

definition closeDuplicateRequest :: "request_id \<Rightarrow> session \<Rightarrow> session outcome" where
  "closeDuplicateRequest r s =
     (if request s \<noteq> Some r then closeOtherRequest r STILL_OPEN s else Inr s)"

definition loseConnectionOutput :: "session \<Rightarrow> session outcome" where
  "loseConnectionOutput s = completeLoseConnection s"

definition storeCloseReason :: "disconnect \<Rightarrow> session \<Rightarrow> session outcome" where
  "storeCloseReason r s = Inr (s\<lparr>closeReason := Some r\<rparr>)"

definition writeCloseReason :: "request_id \<Rightarrow> session \<Rightarrow> session outcome" where
  "writeCloseReason r s =
     (case closeReason s of
        None \<Rightarrow> Inr s
      | Some reason \<Rightarrow> closeOtherRequest r reason s)"

definition dropRequest :: "session \<Rightarrow> session outcome" where
  "dropRequest s = Inr (s\<lparr>request := None\<rparr>)"

definition closeProtocol :: "reason \<Rightarrow> session \<Rightarrow> session outcome" where
  "closeProtocol r s = completeConnectionLost r s"

definition timedOut :: "reason \<Rightarrow> session \<Rightarrow> session outcome" where
  "timedOut r s = completeConnectionLost (if r = ConnectionDone then SessionTimeout else r) s"

subsection \<open>The other inputs\<close>

definition rsm_attach :: "request_id \<Rightarrow> session \<Rightarrow> session outcome" where
  "rsm_attach r s =
     (case mstate s of
        NeverConnected \<Rightarrow>
          upon ConnectedHaveTransport
            [openRequest r, establishConnection r, beginRequest, completeConnection] s
      | ConnectedHaveTransport \<Rightarrow> upon ConnectedHaveTransport [closeDuplicateRequest r] s
      | ConnectedNoTransportEmptyBuffer \<Rightarrow>
          upon ConnectedHaveTransport [openRequest r, beginRequest] s
      | ConnectedNoTransportPending \<Rightarrow>
          upon ConnectedHaveTransport [openRequest r, flushBuffer r] s
      | LoseConnectionEmptyBuffer \<Rightarrow> upon LoseConnectionEmptyBuffer [writeCloseReason r] s
      | LoseConnectionPending \<Rightarrow> upon LoseConnectionPending [writeCloseReason r] s
      | Disconnected \<Rightarrow> raise NoTransition s)"

definition rsm_receive :: "(bytes \<Rightarrow> json option) \<Rightarrow> bytes \<Rightarrow> session \<Rightarrow> session outcome" where
  "rsm_receive fromJSON data s =
     (case mstate s of
        ConnectedHaveTransport \<Rightarrow>
          upon ConnectedHaveTransport [completeDataReceived fromJSON data] s
      | ConnectedNoTransportEmptyBuffer \<Rightarrow>
          upon ConnectedNoTransportEmptyBuffer [completeDataReceived fromJSON data] s
      | ConnectedNoTransportPending \<Rightarrow>
          upon ConnectedNoTransportPending [completeDataReceived fromJSON data] s
      | LoseConnectionEmptyBuffer \<Rightarrow> upon LoseConnectionEmptyBuffer [] s
      | LoseConnectionPending \<Rightarrow> upon LoseConnectionPending [] s
      | _ \<Rightarrow> raise NoTransition s)"

definition rsm_heartbeat :: "session \<Rightarrow> session outcome" where
  "rsm_heartbeat s =
     (case mstate s of
        ConnectedHaveTransport \<Rightarrow> upon ConnectedHaveTransport [directHeartbeat] s
      | ConnectedNoTransportEmptyBuffer \<Rightarrow> upon ConnectedNoTransportEmptyBuffer [] s
      | ConnectedNoTransportPending \<Rightarrow> upon ConnectedNoTransportPending [] s
      | _ \<Rightarrow> raise NoTransition s)"

definition rsm_writeClose :: "disconnect \<Rightarrow> session \<Rightarrow> session outcome" where
  "rsm_writeClose r s =
     (case mstate s of
        ConnectedHaveTransport \<Rightarrow> upon ConnectedHaveTransport [storeCloseReason r] s
      | ConnectedNoTransportEmptyBuffer \<Rightarrow>
          upon ConnectedNoTransportEmptyBuffer [storeCloseReason r] s
      | ConnectedNoTransportPending \<Rightarrow> upon ConnectedNoTransportPending [storeCloseReason r] s
      | _ \<Rightarrow> raise NoTransition s)"

definition rsm_loseConnection :: "session \<Rightarrow> session outcome" where
  "rsm_loseConnection s =
     (case mstate s of
        ConnectedHaveTransport \<Rightarrow>
          upon LoseConnectionEmptyBuffer [closeRequest, loseConnectionOutput] s
      | ConnectedNoTransportEmptyBuffer \<Rightarrow>
          upon LoseConnectionEmptyBuffer [loseConnectionOutput] s
      | ConnectedNoTransportPending \<Rightarrow>
          upon LoseConnectionPending [dumpBuffer, loseConnectionOutput] s
      | _ \<Rightarrow> raise NoTransition s)"

definition rsm_connectionLost :: "reason \<Rightarrow> session \<Rightarrow> session outcome" where
  "rsm_connectionLost r s =
     (case mstate s of
        ConnectedHaveTransport \<Rightarrow> upon Disconnected [dropRequest, closeProtocol r] s
      | ConnectedNoTransportEmptyBuffer \<Rightarrow> upon Disconnected [closeProtocol r] s
      | LoseConnectionEmptyBuffer \<Rightarrow> upon Disconnected [closeProtocol r] s
      | ConnectedNoTransportPending \<Rightarrow> upon Disconnected [dropRequest, timedOut r] s
      | LoseConnectionPending \<Rightarrow> upon Disconnected [timedOut r] s
      | _ \<Rightarrow> raise NoTransition s)"

section \<open>RequestSessionProtocolWrapper: the methods that callers use\<close>

definition makeConnectionFromRequest :: "request_id \<Rightarrow> session \<Rightarrow> session outcome" where
  "makeConnectionFromRequest r s = withMachine (rsm_attach r) s"

definition dataReceived :: "(bytes \<Rightarrow> json option) \<Rightarrow> bytes \<Rightarrow> session \<Rightarrow> session outcome" where
  "dataReceived fromJSON data s = withMachine (rsm_receive fromJSON data) s"

definition writeHeartbeat :: "session \<Rightarrow> session outcome" where
  "writeHeartbeat s = withMachine rsm_heartbeat s"

definition writeClose :: "disconnect \<Rightarrow> session \<Rightarrow> session outcome" where
  "writeClose r s = withMachine (rsm_writeClose r) s"

definition loseConnection :: "session \<Rightarrow> session outcome" where
  "loseConnection s =
     (if \<not> disconnecting s
      then seq [\<lambda>s. Inr (s\<lparr>disconnecting := True\<rparr>),
                withMachine rsm_loseConnection,
                timeout_start] s
      else Inr s)"

text \<open>
  \<^verbatim>\<open>terminationDeferred.errback(reason)\<close>; a Deferred of Twisted fires once and raises
  \<^verbatim>\<open>AlreadyCalledError\<close> afterwards. Its first callback, \<^verbatim>\<open>_timedOut\<close>, does not run on a
  failure.
\<close>

definition termination_errback :: "reason \<Rightarrow> session \<Rightarrow> session outcome" where
  "termination_errback r s =
     (if terminated s then raise AlreadyCalledError s
      else emit (TerminationErrback r) (s\<lparr>terminated := True\<rparr>))"

definition connectionLost :: "reason \<Rightarrow> session \<Rightarrow> session outcome" where
  "connectionLost r s =
     seq [\<lambda>s. if \<not> disconnecting s then seq [termination_errback r, timeout_stop] s else Inr s,
          withMachine (rsm_connectionLost r),
          \<lambda>s. Inr (s\<lparr>machineAlive := False\<rparr>)] s"

text \<open>
  The callback \<^verbatim>\<open>_timedOut\<close> of the termination deferred: \<^verbatim>\<open>connectionLost()\<close> with its
  default reason.
\<close>

definition timedOutCallback :: "session \<Rightarrow> session outcome" where
  "timedOutCallback s = seq [\<lambda>s. Inr (s\<lparr>disconnecting := True\<rparr>), connectionLost ConnectionDone] s"

text \<open>
  \<^verbatim>\<open>TimeoutClock._expire\<close>, which the reactor calls when the pending call fires (there is
  nothing to fire without one). The deferred catches what its callback raises.
\<close>

definition timeout_expire :: "session \<Rightarrow> session outcome" where
  "timeout_expire s =
     (if \<not> timeoutCall s then Inr s
      else seq [\<lambda>s. Inr (s\<lparr>expired := True, timeoutCall := False\<rparr>),
                \<lambda>s. if terminated s then raise AlreadyCalledError s
                     else emit TerminationExpired (s\<lparr>terminated := True\<rparr>),
                \<lambda>s. Inr (final (timedOutCallback s))] s)"

section \<open>SockJSProtocol: the methods that the application uses\<close>

text \<open>\<^verbatim>\<open>SockJSProtocol.write\<close>: the machine writes a data frame and reschedules the heartbeat.\<close>

definition sockjs_write :: "json list \<Rightarrow> session \<Rightarrow> session outcome" where
  "sockjs_write data s =
     withSockJS (\<lambda>s. case sjState s of
                       Connected \<Rightarrow> seq [writeData data, heartbeat_schedule] s
                     | _ \<Rightarrow> raise NoTransition s) s"

text \<open>
  \<^verbatim>\<open>SockJSProtocol.loseConnection\<close>: the machine's \<^verbatim>\<open>disconnect\<close> input with its default
  reason.
\<close>

definition sockjs_loseConnection :: "session \<Rightarrow> session outcome" where
  "sockjs_loseConnection s =
     withSockJS (\<lambda>s. case sjState s of
                       NotYetConnected \<Rightarrow> Inr (s\<lparr>sjState := SJDisconnected\<rparr>)
                     | Connected \<Rightarrow>
                         seq [writeClose GO_AWAY, loseConnection, heartbeat_stop]
                           (s\<lparr>sjState := SJDisconnected\<rparr>)
                     | SJDisconnected \<Rightarrow> raise NoTransition s) s"

section \<open>What happens to a session\<close>

text \<open>
  The calls that reach a session from outside: the methods of the wrapper used by the house,
  the request, the transport and the wrapped protocol, the expiry of the timeout, and the
  two methods of \<^verbatim>\<open>SockJSProtocol\<close> used by the application.
\<close>

datatype action =
    Attach request_id
  | Detach
  | Receive bytes
  | Write "json list"
  | Heartbeat
  | WriteClose disconnect
  | LoseConnection
  | ConnectionLostBy reason
  | Expire
  | AppWrite "json list"
  | AppLoseConnection

fun step :: "(bytes \<Rightarrow> json option) \<Rightarrow> action \<Rightarrow> session \<Rightarrow> session outcome" where
  "step fromJSON (Attach r) s = makeConnectionFromRequest r s"
| "step fromJSON Detach s = detachFromRequest s"
| "step fromJSON (Receive data) s = dataReceived fromJSON data s"
| "step fromJSON (Write data) s = writeData data s"
| "step fromJSON Heartbeat s = writeHeartbeat s"
| "step fromJSON (WriteClose r) s = writeClose r s"
| "step fromJSON LoseConnection s = loseConnection s"
| "step fromJSON (ConnectionLostBy r) s = connectionLost r s"
| "step fromJSON Expire s = timeout_expire s"
| "step fromJSON (AppWrite data) s = sockjs_write data s"
| "step fromJSON AppLoseConnection s = sockjs_loseConnection s"

text \<open>
  A history of the session. An exception goes to the caller and the session object stays
  as the exception left it.
\<close>

fun run :: "(bytes \<Rightarrow> json option) \<Rightarrow> action list \<Rightarrow> session \<Rightarrow> session" where
  "run fromJSON [] s = s"
| "run fromJSON (a # as) s = run fromJSON as (final (step fromJSON a s))"

text \<open>A scenario: the actions in order, up to the first one that raises.\<close>

definition scenario :: "(bytes \<Rightarrow> json option) \<Rightarrow> action list \<Rightarrow> session \<Rightarrow> session outcome" where
  "scenario fromJSON as s = seq (map (step fromJSON) as) s"

section \<open>SessionHouse\<close>

text \<open>
  \<^verbatim>\<open>validateAndExtractSessionID\<close>: the post-path of the request must unpack into three
  segments, none of them empty or containing a dot.
\<close>

definition validateAndExtractSessionID :: "bytes list \<Rightarrow> bytes option" where
  "validateAndExtractSessionID postpath =
     (case postpath of
        [serverID, sessionID, t] \<Rightarrow>
          (if list_ex (\<lambda>identifier. identifier = [] \<or> CHR ''.'' \<in> set identifier) postpath
           then None else Some sessionID)
      | _ \<Rightarrow> None)"

text \<open>The factory of the sessions, and the protocol that its \<^verbatim>\<open>buildProtocol\<close> returns.\<close>

record factory =
  protocolKind :: transport
  factoryMaximumBytes :: nat
  wrappedFactory :: wrapped

definition buildProtocol :: "factory \<Rightarrow> session" where
  "buildProtocol f = newSession (protocolKind f) (factoryMaximumBytes f) (wrappedFactory f)"

text \<open>
  What a Deferred of Twisted hands to its next callback: a plain result, a failure that
  wraps a connection reason, or a failure that wraps an exception raised by the callback
  before.
\<close>

datatype deferred_result = Result | Failure reason | Raised error

fun isFailure :: "deferred_result \<Rightarrow> bool" where
  "isFailure Result = False"
| "isFailure (Failure r) = True"
| "isFailure (Raised e) = True"

text \<open>The house: its dictionary of sessions, and the failures handed to \<^verbatim>\<open>eliot.writeFailure\<close>.\<close>

record house =
  sessions :: "bytes \<rightharpoonup> session"
  logged :: "deferred_result list"

text \<open>
  \<^verbatim>\<open>_sessionClosed\<close>, as a callback: what it returns or raises is the next result of the
  deferred. In its body \<^verbatim>\<open>failure.trap(...)\<close> names the module \<^verbatim>\<open>twisted.python.failure\<close>
  imported at the top of the file, not the argument \<^verbatim>\<open>maybeFailure\<close>; the module has no
  attribute \<^verbatim>\<open>trap\<close>, so the call raises \<^verbatim>\<open>AttributeError\<close>.
\<close>

definition sessionClosed :: "deferred_result \<Rightarrow> bytes \<Rightarrow> house \<Rightarrow> deferred_result \<times> house" where
  "sessionClosed maybeFailure sessionID h =
     (case sessions h sessionID of
        None \<Rightarrow> (Raised KeyError, h)
      | Some session \<Rightarrow>
          (if isFailure maybeFailure
           then (Raised AttributeError, h\<lparr>sessions := (sessions h)(sessionID := None)\<rparr>)
           else (maybeFailure, h\<lparr>sessions := (sessions h)(sessionID := None)\<rparr>)))"

text \<open>
  The hooks that \<^verbatim>\<open>makeSession\<close> adds to the termination deferred of a new session:
  \<^verbatim>\<open>addBoth(self._sessionClosed, sessionID)\<close>, then \<^verbatim>\<open>addErrback(eliot.writeFailure)\<close>.
\<close>

definition terminationHooks :: "deferred_result \<Rightarrow> bytes \<Rightarrow> house \<Rightarrow> house" where
  "terminationHooks result sessionID h =
     (case sessionClosed result sessionID h of
        (Result, h') \<Rightarrow> h'
      | (f, h') \<Rightarrow> h'\<lparr>logged := logged h' @ [f]\<rparr>)"

text \<open>
  \<^verbatim>\<open>attachToSession\<close>: \<open>False\<close> for an invalid path; otherwise the session is looked up
  or built and stored, the request is attached and the answer is \<open>True\<close>.
\<close>

definition attachToSession ::
  "factory \<Rightarrow> bytes list \<Rightarrow> request_id \<Rightarrow> house \<Rightarrow> (error \<times> house) + (bool \<times> house)" where
  "attachToSession f postpath r h =
     (case validateAndExtractSessionID postpath of
        None \<Rightarrow> Inr (False, h)
      | Some sessionID \<Rightarrow>
          (let session = (case sessions h sessionID of
                            None \<Rightarrow> buildProtocol f
                          | Some existing \<Rightarrow> existing)
           in case makeConnectionFromRequest r session of
                Inl (e, session') \<Rightarrow>
                  Inl (e, h\<lparr>sessions := (sessions h)(sessionID \<mapsto> session')\<rparr>)
              | Inr session' \<Rightarrow>
                  Inr (True, h\<lparr>sessions := (sessions h)(sessionID \<mapsto> session')\<rparr>)))"

section \<open>WebSocketProtocolWrapper\<close>

text \<open>
  The wrapper records what it passes to the wrapped protocol and to its transport;
  \<open>wsDisconnecting\<close> is the flag that \<^verbatim>\<open>ProtocolWrapper.loseConnection\<close> sets.
\<close>

record websocket =
  wsDisconnecting :: bool
  wsEvents :: "event list"

definition ws_jsonReceived :: "json \<Rightarrow> websocket \<Rightarrow> websocket outcome" where
  "ws_jsonReceived decoded w =
     (if truthy decoded then Inr (w\<lparr>wsEvents := wsEvents w @ [AppDataReceived decoded]\<rparr>)
      else Inr w)"

definition ws_loseConnection :: "websocket \<Rightarrow> websocket outcome" where
  "ws_loseConnection w =
     Inr (w\<lparr>wsDisconnecting := True, wsEvents := wsEvents w @ [TransportLoseConnection]\<rparr>)"

definition ws_dataReceived :: "(bytes \<Rightarrow> json option) \<Rightarrow> bytes \<Rightarrow> websocket \<Rightarrow> websocket outcome" where
  "ws_dataReceived fromJSON data w =
     (if data = [] then Inr w
      else (case wire_dataReceived fromJSON ws_jsonReceived data w of
              Inl (InvalidData reason, w') \<Rightarrow> ws_loseConnection w'
            | Inl (e, w') \<Rightarrow> Inl (e, w')
            | Inr w' \<Rightarrow> Inr w'))"

section \<open>Observations\<close>

text \<open>The requests attached to a session: the wrapper has one slot for its request.\<close>

definition attachedRequests :: "session \<Rightarrow> request_id set" where
  "attachedRequests s = set_option (request s)"

text \<open>What a request has received so far.\<close>

definition received :: "session \<Rightarrow> request_id \<Rightarrow> bytes list" where
  "received s r = written (requests s r)"

text \<open>The session has a request exactly in the state \<open>connectedHaveTransport\<close>.\<close>

definition consistent :: "session \<Rightarrow> bool" where
  "consistent s = (request s \<noteq> None \<longleftrightarrow> mstate s = ConnectedHaveTransport)"

text \<open>The two states without a request in which the session still accepts writes.\<close>

definition detached :: "session \<Rightarrow> bool" where
  "detached s =
     (mstate s = ConnectedNoTransportEmptyBuffer \<or> mstate s = ConnectedNoTransportPending)"

text \<open>
  Moreover the wrapper still has its machine as long as the machine is not disconnected.
\<close>

definition wellFormed :: "session \<Rightarrow> bool" where
  "wellFormed s = (consistent s \<and> (mstate s \<noteq> Disconnected \<longrightarrow> machineAlive s))"

text \<open>A path as the spec wants it: three segments, none empty, none with a dot.\<close>

definition validPath :: "bytes list \<Rightarrow> bool" where
  "validPath postpath =
     (length postpath = 3 \<and> (\<forall>segment \<in> set postpath. segment \<noteq> [] \<and> CHR ''.'' \<notin> set segment))"

section \<open>Proof tools\<close>

text \<open>The defining equations, grouped for unfolding.\<close>

lemmas low_defs = raise_def emit_def request_write_def request_finish_def notifier_cancel_def
  timeout_reset_def timeout_start_def timeout_stop_def heartbeat_schedule_def heartbeat_stop_def
  rspw_write_def closeOtherRequest_def wire_writeOpen_def wire_writeHeartbeat_def wire_writeData_def
  beginRequest_def establishConnection_def completeHeartbeat_def completeLoseConnection_def
  finishCurrentRequest_def upon_def withMachine_def closeRequest_def

lemmas machine_defs = rsm_detach_def detachFromRequest_def countBytes_def detachAtMaximum_def
  completeWrite_def directWrite_def bufferWrite_def rsm_write_def writeData_def writeOpen_def
  withSockJS_def sockjs_connect_def sockjs_receive_def sockjs_close_def wrapped_makeConnection_def
  wrapped_dataReceived_def wrapped_connectionLost_def completeConnection_def jsonReceived_def
  completeDataReceived_def completeConnectionLost_def openRequest_def flushBuffer_def dumpBuffer_def
  directHeartbeat_def closeDuplicateRequest_def loseConnectionOutput_def storeCloseReason_def
  writeCloseReason_def dropRequest_def closeProtocol_def timedOut_def rsm_attach_def rsm_receive_def
  rsm_heartbeat_def rsm_writeClose_def rsm_loseConnection_def rsm_connectionLost_def
  wire_dataReceived_def

lemmas api_defs = makeConnectionFromRequest_def dataReceived_def writeHeartbeat_def writeClose_def
  loseConnection_def termination_errback_def connectionLost_def timedOutCallback_def
  timeout_expire_def sockjs_write_def sockjs_loseConnection_def

lemmas inv_defs = wellFormed_def consistent_def

subsection \<open>Every step keeps the session well formed\<close>

lemma inv_attach: "wellFormed s \<Longrightarrow> wellFormed (final (makeConnectionFromRequest r s))"
  by (cases "mstate s"; cases "kind s"; cases "wrappedProtocol s"; cases "sjState s")
     (auto simp: inv_defs low_defs machine_defs api_defs split: option.splits if_splits)

lemma inv_detach: "wellFormed s \<Longrightarrow> wellFormed (final (detachFromRequest s))"
  by (cases "mstate s")
     (auto simp: inv_defs low_defs machine_defs api_defs split: option.splits if_splits)

lemma inv_receive: "wellFormed s \<Longrightarrow> wellFormed (final (dataReceived f d s))"
  by (cases "mstate s"; cases "wrappedProtocol s"; cases "sjState s")
     (auto simp: inv_defs low_defs machine_defs api_defs split: option.splits if_splits)

lemma inv_write: "wellFormed s \<Longrightarrow> wellFormed (final (writeData d s))"
  by (cases "mstate s"; cases "kind s")
     (auto simp: inv_defs low_defs machine_defs api_defs split: option.splits if_splits)

lemma inv_heartbeat: "wellFormed s \<Longrightarrow> wellFormed (final (writeHeartbeat s))"
  by (cases "mstate s")
     (auto simp: inv_defs low_defs machine_defs api_defs split: option.splits if_splits)

lemma inv_writeClose: "wellFormed s \<Longrightarrow> wellFormed (final (writeClose r s))"
  by (cases "mstate s")
     (auto simp: inv_defs low_defs machine_defs api_defs split: option.splits if_splits)

lemma inv_loseConnection: "wellFormed s \<Longrightarrow> wellFormed (final (loseConnection s))"
  by (cases "mstate s")
     (auto simp: inv_defs low_defs machine_defs api_defs split: option.splits if_splits)

lemma inv_connectionLost: "wellFormed s \<Longrightarrow> wellFormed (final (connectionLost r s))"
  by (cases "mstate s"; cases "wrappedProtocol s"; cases "sjState s")
     (auto simp: inv_defs low_defs machine_defs api_defs split: option.splits if_splits)

lemma final_seq_preserves:
  assumes "\<And>f t. f \<in> set fs \<Longrightarrow> P t \<Longrightarrow> P (final (f t))" and "P s"
  shows "P (final (seq fs s))"
  using assms
proof (induction fs arbitrary: s)
  case Nil
  then show ?case by simp
next
  case (Cons g gs)
  have step: "P (final (g s))" using Cons.prems by simp
  show ?case
  proof (cases "g s")
    case (Inl x)
    then show ?thesis using step by (cases x) simp
  next
    case (Inr t)
    then have "P t" using step by simp
    then have "P (final (seq gs t))" using Cons.IH Cons.prems(1) by simp
    then show ?thesis using Inr by simp
  qed
qed

lemma wellFormed_update:
  "wellFormed s \<Longrightarrow> mstate t = mstate s \<Longrightarrow> request t = request s \<Longrightarrow>
   machineAlive t = machineAlive s \<Longrightarrow> wellFormed t"
  by (simp add: inv_defs)

lemma wf_seq:
  assumes "\<And>f t. f \<in> set fs \<Longrightarrow> wellFormed t \<Longrightarrow> wellFormed (final (f t))" and "wellFormed s"
  shows "wellFormed (final (seq fs s))"
  using assms by (rule final_seq_preserves)

lemma inv_timedOutCallback: "wellFormed s \<Longrightarrow> wellFormed (final (timedOutCallback s))"
  unfolding timedOutCallback_def
  apply (rule wf_seq)
   apply (auto simp: inv_connectionLost elim: wellFormed_update)
  done

lemma inv_expire: "wellFormed s \<Longrightarrow> wellFormed (final (timeout_expire s))"
proof (cases "timeoutCall s")
  case False
  assume "wellFormed s"
  then show ?thesis using False by (simp add: timeout_expire_def)
next
  case True
  assume wf: "wellFormed s"
  have "wellFormed (final (seq [\<lambda>s. Inr (s\<lparr>expired := True, timeoutCall := False\<rparr>),
                \<lambda>s. if terminated s then raise AlreadyCalledError s
                     else emit TerminationExpired (s\<lparr>terminated := True\<rparr>),
                \<lambda>s. Inr (final (timedOutCallback s))] s))"
    apply (rule wf_seq)
     apply (auto simp: inv_timedOutCallback raise_def emit_def wf elim: wellFormed_update)
    apply (erule wellFormed_update; simp)
    done
  then show ?thesis using True by (simp add: timeout_expire_def)
qed

lemma inv_heartbeat_schedule: "wellFormed s \<Longrightarrow> wellFormed (final (heartbeat_schedule s))"
  by (auto simp: heartbeat_schedule_def raise_def elim: wellFormed_update)

lemma inv_heartbeat_stop: "wellFormed s \<Longrightarrow> wellFormed (final (heartbeat_stop s))"
  by (auto simp: heartbeat_stop_def elim: wellFormed_update)

lemma inv_sockjs_write: "wellFormed s \<Longrightarrow> wellFormed (final (sockjs_write d s))"
proof -
  assume wf: "wellFormed s"
  have "wellFormed (final (seq [writeData d, heartbeat_schedule] s))"
    apply (rule wf_seq)
     apply (auto simp: inv_write inv_heartbeat_schedule wf)
    done
  then show ?thesis using wf
    by (cases "sjState s") (simp_all add: sockjs_write_def withSockJS_def raise_def)
qed

lemma inv_sockjs_loseConnection: "wellFormed s \<Longrightarrow> wellFormed (final (sockjs_loseConnection s))"
proof -
  assume wf: "wellFormed s"
  have wf1: "wellFormed (s\<lparr>sjState := SJDisconnected\<rparr>)"
    using wf by (rule wellFormed_update) simp_all
  have "wellFormed (final (seq [writeClose GO_AWAY, loseConnection, heartbeat_stop]
                           (s\<lparr>sjState := SJDisconnected\<rparr>)))"
    apply (rule wf_seq)
     apply (auto simp: inv_writeClose inv_loseConnection inv_heartbeat_stop wf1)
    done
  then show ?thesis using wf wf1
    by (cases "sjState s") (simp_all add: sockjs_loseConnection_def withSockJS_def raise_def)
qed

lemma inv_step: "wellFormed s \<Longrightarrow> wellFormed (final (step f a s))"
  by (cases a)
     (simp_all add: inv_attach inv_detach inv_receive inv_write inv_heartbeat inv_writeClose
        inv_loseConnection inv_connectionLost inv_expire inv_sockjs_write
        inv_sockjs_loseConnection)

lemma inv_run: "wellFormed s \<Longrightarrow> wellFormed (run f as s)"
  by (induction as arbitrary: s) (simp_all add: inv_step)

lemma wellFormed_newSession: "wellFormed (newSession k m w)"
  by (simp add: newSession_def inv_defs)

lemma reachable_wellFormed: "wellFormed (run f as (newSession k m w))"
  by (simp add: inv_run wellFormed_newSession)

subsection \<open>A row that stays in its state\<close>

lemma upon_same: "mstate s = st \<Longrightarrow> upon st fs s = seq fs s"
proof -
  assume "mstate s = st"
  then have "s\<lparr>mstate := st\<rparr> = s" by (cases s) simp
  then show ?thesis by (simp add: upon_def)
qed

subsection \<open>The close frames\<close>

lemma closeFrame_GO_AWAY: \<open>closeFrame GO_AWAY = ''c[3000,"Go away!"]''\<close>
  by code_simp

lemma closeFrame_STILL_OPEN: \<open>closeFrame STILL_OPEN = ''c[2010,"Another connection still open"]''\<close>
  by code_simp

section \<open>Attaching the current request again\<close>

text \<open>
  Claim C10. In the state \<open>connectedHaveTransport\<close>, attaching the very request that is the
  current one changes nothing at all: no frame is written, the request is not finished, the
  state and the current request stay. Any other request is closed as a duplicate: it
  receives the close frame for \<open>STILL_OPEN\<close> and is finished.
\<close>

theorem attach_same_request_is_noop:
  assumes "mstate s = ConnectedHaveTransport" and "request s = Some r"
  shows \<open>rsm_attach r s = Inr s \<and>
    (\<forall>r'. r' \<noteq> r \<longrightarrow>
       rsm_attach r' s = closeOtherRequest r' STILL_OPEN s \<and>
       received (final (rsm_attach r' s)) r' =
         received s r' @ [''c[2010,"Another connection still open"]\<newline>''] \<and>
       finished (requests (final (rsm_attach r' s)) r') = finished (requests s r') + 1)\<close>
  using assms
  by (simp add: rsm_attach_def upon_def closeDuplicateRequest_def closeOtherRequest_def
        request_write_def request_finish_def received_def closeFrame_STILL_OPEN)

theorem attach_same_request_is_noop_witness:
  \<open>mstate (run (\<lambda>d. None) [Attach 1] (newSession Polling 0 Application)) = ConnectedHaveTransport \<and>
   request (run (\<lambda>d. None) [Attach 1] (newSession Polling 0 Application)) = Some 1 \<and>
   rsm_attach 1 (run (\<lambda>d. None) [Attach 1] (newSession Polling 0 Application)) =
     Inr (run (\<lambda>d. None) [Attach 1] (newSession Polling 0 Application)) \<and>
   received (final (rsm_attach 2 (run (\<lambda>d. None) [Attach 1] (newSession Polling 0 Application)))) 2 =
     [''c[2010,"Another connection still open"]\<newline>'']\<close>
proof -
  let ?s = "run (\<lambda>d. None) [Attach 1] (newSession Polling 0 Application)"
  have h1: "mstate ?s = ConnectedHaveTransport"
    by (simp add: newSession_def low_defs machine_defs api_defs)
  have h2: "request ?s = Some 1"
    by (simp add: newSession_def low_defs machine_defs api_defs)
  have h3: "received ?s 2 = []"
    by (simp add: newSession_def low_defs machine_defs api_defs received_def)
  note t = attach_same_request_is_noop[OF h1 h2]
  have ne: "(2::nat) \<noteq> 1" by simp
  have a: "rsm_attach 1 ?s = Inr ?s"
    using t by (rule conjunct1)
  have \<open>received (final (rsm_attach 2 ?s)) 2 =
          received ?s 2 @ [''c[2010,"Another connection still open"]\<newline>'']\<close>
    using t[THEN conjunct2, rule_format, OF ne] by blast
  then have b: \<open>received (final (rsm_attach 2 ?s)) 2 =
          [''c[2010,"Another connection still open"]\<newline>'']\<close>
    unfolding h3 by simp
  show ?thesis
    by (intro conjI) (rule h1 h2 a b)+
qed


section \<open>Payloads received over a WebSocket\<close>

text \<open>
  Claim C9. The WebSocket wrapper passes a decoded payload to the wrapped protocol exactly
  when the input is not empty, decodes, and the decoded value is truthy. Empty input is
  ignored, and so is every falsy value: \<open>null\<close>, \<open>false\<close>, \<open>0\<close>, the empty string, the
  empty array and the empty object. In these cases the wrapper is left as it was.
\<close>

theorem websocket_delivers_only_truthy:
  \<open>(wsEvents (final (ws_dataReceived fromJSON data w)) = wsEvents w @ [AppDataReceived v]
      \<longleftrightarrow> data \<noteq> [] \<and> fromJSON data = Some v \<and> truthy v) \<and>
   (data = [] \<longrightarrow> ws_dataReceived fromJSON data w = Inr w) \<and>
   (data \<noteq> [] \<and> fromJSON data = Some v \<and> \<not> truthy v \<longrightarrow>
      ws_dataReceived fromJSON data w = Inr w) \<and>
   (data \<noteq> [] \<and> fromJSON data = Some v \<and> truthy v \<longrightarrow>
      ws_dataReceived fromJSON data w = Inr (w\<lparr>wsEvents := wsEvents w @ [AppDataReceived v]\<rparr>)) \<and>
   (\<not> truthy v \<longleftrightarrow> v \<in> {JNull, JBool False, JInt 0, JString [], JArray [], JObject []})\<close>
proof -
  have falsy: "\<not> truthy v \<longleftrightarrow> v \<in> {JNull, JBool False, JInt 0, JString [], JArray [], JObject []}"
    by (cases v) auto
  show ?thesis
    unfolding falsy[symmetric]
    by (auto simp: ws_dataReceived_def wire_dataReceived_def ws_jsonReceived_def
          ws_loseConnection_def raise_def split: option.splits)
qed

theorem websocket_delivers_only_truthy_witness:
  \<open>ws_dataReceived (\<lambda>d. if d = ''null'' then Some JNull else if d = ''[1]'' then Some (JArray [JInt 1]) else None)
      [] \<lparr>wsDisconnecting = False, wsEvents = []\<rparr> = Inr \<lparr>wsDisconnecting = False, wsEvents = []\<rparr> \<and>
    ws_dataReceived (\<lambda>d. if d = ''null'' then Some JNull else if d = ''[1]'' then Some (JArray [JInt 1]) else None)
      ''null'' \<lparr>wsDisconnecting = False, wsEvents = []\<rparr> = Inr \<lparr>wsDisconnecting = False, wsEvents = []\<rparr> \<and>
    ws_dataReceived (\<lambda>d. if d = ''null'' then Some JNull else if d = ''[1]'' then Some (JArray [JInt 1]) else None)
      ''[1]'' \<lparr>wsDisconnecting = False, wsEvents = []\<rparr> =
        Inr \<lparr>wsDisconnecting = False, wsEvents = [AppDataReceived (JArray [JInt 1])]\<rparr>\<close>
proof -
  let ?f = "\<lambda>d. if d = ''null'' then Some JNull else if d = ''[1]'' then Some (JArray [JInt 1]) else None"
  let ?w = "\<lparr>wsDisconnecting = False, wsEvents = []\<rparr>"
  have a: "ws_dataReceived ?f [] ?w = Inr ?w"
    using websocket_delivers_only_truthy[of ?f "[]" ?w JNull] by blast
  have b: "ws_dataReceived ?f ''null'' ?w = Inr ?w"
    using websocket_delivers_only_truthy[of ?f "''null''" ?w JNull] by simp
  have c: "ws_dataReceived ?f ''[1]'' ?w = Inr \<lparr>wsDisconnecting = False, wsEvents = [AppDataReceived (JArray [JInt 1])]\<rparr>"
    using websocket_delivers_only_truthy[of ?f "''[1]''" ?w "JArray [JInt 1]"] by simp
  show ?thesis by (intro conjI) (rule a b c)+
qed

section \<open>Payloads received by SockJSWireProtocolWrapper\<close>

text \<open>
  Claim C6. \<^verbatim>\<open>SockJSWireProtocolWrapper.dataReceived\<close> raises \<open>InvalidData\<close> with the reason
  \<^verbatim>\<open>Payload expected.\<close> and a newline on empty input, and with \<^verbatim>\<open>Broken JSON encoding.\<close>
  and a newline on input that does not decode. Any other input is decoded and handed to
  \<^verbatim>\<open>jsonReceived\<close>, which for a session passes it to the wrapped protocol. In both failure
  cases the session, and so its buffer, is exactly as before, also when the data came in
  through the session's \<^verbatim>\<open>dataReceived\<close> and its machine.
\<close>

theorem dataReceived_rejects_bad_payloads:
  \<open>wire_dataReceived fromJSON jr [] s = Inl (InvalidData ''Payload expected.\<newline>'', s) \<and>
   (data \<noteq> [] \<and> fromJSON data = None \<longrightarrow>
      wire_dataReceived fromJSON jr data s = Inl (InvalidData ''Broken JSON encoding.\<newline>'', s)) \<and>
   (data \<noteq> [] \<and> fromJSON data = Some v \<longrightarrow> wire_dataReceived fromJSON jr data s = jr v s) \<and>
   (data \<noteq> [] \<and> fromJSON data = Some v \<and> wrappedProtocol t = Application \<longrightarrow>
      completeDataReceived fromJSON data t = Inr (t\<lparr>events := events t @ [AppDataReceived v]\<rparr>)) \<and>
   (data \<noteq> [] \<and> fromJSON data = Some v \<and> wrappedProtocol t = SockJS \<and> sjAlive t \<and> sjState t = Connected \<longrightarrow>
      completeDataReceived fromJSON data t = Inr (t\<lparr>events := events t @ [AppDataReceived v]\<rparr>)) \<and>
   (data = [] \<or> fromJSON data = None \<longrightarrow>
      final (completeDataReceived fromJSON data t) = t \<and>
      final (dataReceived fromJSON data t) = t \<and>
      buffer (final (dataReceived fromJSON data t)) = buffer t)\<close>
  by (cases "mstate t")
     (auto simp: wire_dataReceived_def raise_def NO_PAYLOAD_def BAD_JSON_def completeDataReceived_def
        jsonReceived_def wrapped_dataReceived_def emit_def withSockJS_def sockjs_receive_def
        dataReceived_def withMachine_def rsm_receive_def upon_same)

theorem dataReceived_rejects_bad_payloads_witness:
  \<open>wire_dataReceived (\<lambda>d. if d = ''[1]'' then Some (JArray [JInt 1]) else None) jsonReceived []
      (newSession Polling 0 Application) =
      Inl (InvalidData ''Payload expected.\<newline>'', newSession Polling 0 Application) \<and>
    wire_dataReceived (\<lambda>d. if d = ''[1]'' then Some (JArray [JInt 1]) else None) jsonReceived ''!!!''
      (newSession Polling 0 Application) =
      Inl (InvalidData ''Broken JSON encoding.\<newline>'', newSession Polling 0 Application) \<and>
    completeDataReceived (\<lambda>d. if d = ''[1]'' then Some (JArray [JInt 1]) else None) ''[1]''
      (newSession Polling 0 Application) =
      Inr ((newSession Polling 0 Application)
             \<lparr>events := events (newSession Polling 0 Application) @ [AppDataReceived (JArray [JInt 1])]\<rparr>) \<and>
    buffer (final (dataReceived (\<lambda>d. if d = ''[1]'' then Some (JArray [JInt 1]) else None) ''!!!''
      (newSession Polling 0 Application))) = buffer (newSession Polling 0 Application)\<close>
proof -
  let ?f = "\<lambda>d. if d = ''[1]'' then Some (JArray [JInt 1]) else None"
  let ?s = "newSession Polling 0 Application"
  have bad: "''!!!'' \<noteq> [] \<and> ?f ''!!!'' = None" by simp
  have good: "''[1]'' \<noteq> [] \<and> ?f ''[1]'' = Some (JArray [JInt 1]) \<and> wrappedProtocol ?s = Application"
    by (simp add: newSession_def)
  note t1 = dataReceived_rejects_bad_payloads[of ?f jsonReceived ?s "''!!!''" JNull ?s]
  note t2 = dataReceived_rejects_bad_payloads[of ?f jsonReceived ?s "''[1]''" "JArray [JInt 1]" ?s]
  have bad': "''!!!'' = [] \<or> ?f ''!!!'' = None" by simp
  have a: "wire_dataReceived ?f jsonReceived [] ?s = Inl (InvalidData ''Payload expected.\<newline>'', ?s)"
    by (rule t1[THEN conjunct1])
  have b: "wire_dataReceived ?f jsonReceived ''!!!'' ?s = Inl (InvalidData ''Broken JSON encoding.\<newline>'', ?s)"
    using bad t1[THEN conjunct2, THEN conjunct1] by (rule rev_mp)
  have c: "completeDataReceived ?f ''[1]'' ?s =
      Inr (?s\<lparr>events := events ?s @ [AppDataReceived (JArray [JInt 1])]\<rparr>)"
    using good t2[THEN conjunct2, THEN conjunct2, THEN conjunct2, THEN conjunct1] by (rule rev_mp)
  have "final (completeDataReceived ?f ''!!!'' ?s) = ?s \<and>
      final (dataReceived ?f ''!!!'' ?s) = ?s \<and>
      buffer (final (dataReceived ?f ''!!!'' ?s)) = buffer ?s"
    using bad' t1[THEN conjunct2, THEN conjunct2, THEN conjunct2, THEN conjunct2, THEN conjunct2]
    by (rule rev_mp)
  then have d: "buffer (final (dataReceived ?f ''!!!'' ?s)) = buffer ?s"
    by (elim conjE)
  show ?thesis by (intro conjI) (rule a b c d)+
qed

section \<open>Heartbeats\<close>

text \<open>
  Claim C8. In every state that a session can reach, the \<^verbatim>\<open>heartbeat\<close> input of the
  machine writes something exactly when the machine is in \<open>connectedHaveTransport\<close>, and
  then it is the frame \<open>h\<close> and a newline on the current request. In the two detached states
  the input returns and leaves the session as it was: nothing is written and nothing is
  queued. In every other state the session is unchanged as well.
\<close>

theorem heartbeat_only_in_have:
  assumes "s = run fromJSON as (newSession k m w)"
  shows \<open>((\<exists>r. received (final (rsm_heartbeat s)) r \<noteq> received s r)
            \<longleftrightarrow> mstate s = ConnectedHaveTransport) \<and>
         (mstate s = ConnectedHaveTransport \<longrightarrow>
            (\<exists>r. request s = Some r \<and> rsm_heartbeat s = request_write r ''h\<newline>'' s \<and>
                 received (final (rsm_heartbeat s)) r = received s r @ [''h\<newline>''])) \<and>
         (detached s \<longrightarrow> rsm_heartbeat s = Inr s) \<and>
         (mstate s \<noteq> ConnectedHaveTransport \<longrightarrow> final (rsm_heartbeat s) = s)\<close>
proof -
  have wf: "wellFormed s" unfolding assms by (rule reachable_wellFormed)
  then have c: "request s \<noteq> None \<longleftrightarrow> mstate s = ConnectedHaveTransport"
    by (simp add: wellFormed_def consistent_def)
  show ?thesis
    using c
    by (cases "mstate s")
       (auto simp: rsm_heartbeat_def upon_same directHeartbeat_def completeHeartbeat_def
          wire_writeHeartbeat_def rspw_write_def request_write_def received_def raise_def
          detached_def)
qed

theorem heartbeat_only_in_have_witness:
  \<open>received (final (rsm_heartbeat (run (\<lambda>d. None) [Attach 1] (newSession Polling 0 Application)))) 1 =
      [''h\<newline>''] \<and>
    detached (run (\<lambda>d. None) [Attach 1, Detach] (newSession Polling 0 Application)) \<and>
    rsm_heartbeat (run (\<lambda>d. None) [Attach 1, Detach] (newSession Polling 0 Application)) =
      Inr (run (\<lambda>d. None) [Attach 1, Detach] (newSession Polling 0 Application)) \<and>
    detached (run (\<lambda>d. None) [Attach 1, Detach, Write [JString ''x'']] (newSession Polling 0 Application)) \<and>
    rsm_heartbeat (run (\<lambda>d. None) [Attach 1, Detach, Write [JString ''x'']] (newSession Polling 0 Application)) =
      Inr (run (\<lambda>d. None) [Attach 1, Detach, Write [JString ''x'']] (newSession Polling 0 Application))\<close>
proof -
  let ?n = "newSession Polling 0 Application"
  let ?a = "run (\<lambda>d. None) [Attach 1] ?n"
  let ?b = "run (\<lambda>d. None) [Attach 1, Detach] ?n"
  let ?c = "run (\<lambda>d. None) [Attach 1, Detach, Write [JString ''x'']] ?n"
  have ha: "mstate ?a = ConnectedHaveTransport" "request ?a = Some 1" "received ?a 1 = []"
    by (simp_all add: newSession_def low_defs machine_defs api_defs received_def)
  have hb: "detached ?b"
    by (simp add: newSession_def low_defs machine_defs api_defs detached_def)
  have hc: "detached ?c"
    by (simp add: newSession_def low_defs machine_defs api_defs detached_def)
  note ta = heartbeat_only_in_have[OF refl, of "\<lambda>d. None" "[Attach 1]" Polling 0 Application]
  note tb = heartbeat_only_in_have[OF refl, of "\<lambda>d. None" "[Attach 1, Detach]" Polling 0 Application]
  note tc = heartbeat_only_in_have[OF refl, of "\<lambda>d. None" "[Attach 1, Detach, Write [JString ''x'']]" Polling 0 Application]
  have "\<exists>r. request ?a = Some r \<and> rsm_heartbeat ?a = request_write r ''h\<newline>'' ?a \<and>
                 received (final (rsm_heartbeat ?a)) r = received ?a r @ [''h\<newline>'']"
    using ta ha(1) by blast
  then have "received (final (rsm_heartbeat ?a)) 1 = received ?a 1 @ [''h\<newline>'']"
    unfolding ha(2) by blast
  then have a: "received (final (rsm_heartbeat ?a)) 1 = [''h\<newline>'']"
    unfolding ha(3) by simp
  have b: "rsm_heartbeat ?b = Inr ?b" using tb hb by blast
  have c: "rsm_heartbeat ?c = Inr ?c" using tc hc by blast
  show ?thesis by (intro conjI) (rule a b c hb hc)+
qed


section \<open>A second request\<close>

text \<open>
  Claim C4. In every state that a session can reach, at most one request is attached, and
  if a request is attached then attaching a different one returns after writing the close
  frame for \<open>STILL_OPEN\<close>, \<^verbatim>\<open>c[2010,"Another connection still open"]\<close> and a newline, to
  the newcomer and finishing it; the request attached before is still the current one and
  the machine has not moved.
\<close>

theorem duplicate_attach_closes_newcomer:
  assumes "s = run fromJSON as (newSession k m w)"
  shows \<open>card (attachedRequests s) \<le> 1 \<and>
     (\<forall>r1 r2. request s = Some r1 \<and> r2 \<noteq> r1 \<longrightarrow>
        (\<exists>s'. makeConnectionFromRequest r2 s = Inr s' \<and>
              received s' r2 = received s r2 @ [''c[2010,"Another connection still open"]\<newline>''] \<and>
              finished (requests s' r2) = finished (requests s r2) + 1 \<and>
              request s' = Some r1 \<and> mstate s' = mstate s \<and> attachedRequests s' = {r1}))\<close>
proof -
  have wf: "wellFormed s" unfolding assms by (rule reachable_wellFormed)
  have one: "card (attachedRequests s) \<le> 1"
    by (cases "request s") (simp_all add: attachedRequests_def)
  have dup: "\<exists>s'. makeConnectionFromRequest r2 s = Inr s' \<and>
              received s' r2 = received s r2 @ [''c[2010,\"Another connection still open\"]\<newline>''] \<and>
              finished (requests s' r2) = finished (requests s r2) + 1 \<and>
              request s' = Some r1 \<and> mstate s' = mstate s \<and> attachedRequests s' = {r1}"
    if "request s = Some r1" "r2 \<noteq> r1" for r1 r2
  proof -
    from wf that(1) have st: "mstate s = ConnectedHaveTransport" and alive: "machineAlive s"
      by (auto simp: wellFormed_def consistent_def)
    show ?thesis
      using st alive that
      by (simp add: makeConnectionFromRequest_def withMachine_def rsm_attach_def upon_same
            closeDuplicateRequest_def closeOtherRequest_def request_write_def request_finish_def
            received_def closeFrame_STILL_OPEN attachedRequests_def)
  qed
  show ?thesis using one dup by blast
qed

theorem duplicate_attach_closes_newcomer_witness:
  \<open>request (run (\<lambda>d. None) [Attach 1] (newSession Polling 0 Application)) = Some 1 \<and>
    card (attachedRequests (run (\<lambda>d. None) [Attach 1] (newSession Polling 0 Application))) \<le> 1 \<and>
    received (final (makeConnectionFromRequest 2
       (run (\<lambda>d. None) [Attach 1] (newSession Polling 0 Application)))) 2 =
      [''c[2010,"Another connection still open"]\<newline>''] \<and>
    request (final (makeConnectionFromRequest 2
       (run (\<lambda>d. None) [Attach 1] (newSession Polling 0 Application)))) = Some 1\<close>
proof -
  let ?s = "run (\<lambda>d. None) [Attach 1] (newSession Polling 0 Application)"
  have h: "request ?s = Some 1 \<and> (2::nat) \<noteq> 1"
    by (simp add: newSession_def low_defs machine_defs api_defs)
  have h3: "received ?s 2 = []"
    by (simp add: newSession_def low_defs machine_defs api_defs received_def)
  note t = duplicate_attach_closes_newcomer[OF refl, of "\<lambda>d. None" "[Attach 1]" Polling 0 Application]
  have a: "card (attachedRequests ?s) \<le> 1" by (rule t[THEN conjunct1])
  from t[THEN conjunct2, rule_format, OF h]
  obtain s' where s': "makeConnectionFromRequest 2 ?s = Inr s'"
      \<open>received s' 2 = received ?s 2 @ [''c[2010,"Another connection still open"]\<newline>'']\<close>
      "request s' = Some 1"
    by blast
  have b: \<open>received (final (makeConnectionFromRequest 2 ?s)) 2 =
      [''c[2010,"Another connection still open"]\<newline>'']\<close>
    unfolding s'(1) final.simps s'(2) h3 by simp
  have c: "request (final (makeConnectionFromRequest 2 ?s)) = Some 1"
    unfolding s'(1) final.simps by (rule s'(3))
  show ?thesis by (intro conjI) (rule h[THEN conjunct1] a b c)+
qed

section \<open>The stored close reason\<close>

text \<open>
  Claim C3, as stated, fails: after attach, detach and \<^verbatim>\<open>writeClose(GO_AWAY)\<close> the machine is
  in \<open>connectedNoTransportEmptyBuffer\<close>, whose attach row only opens and begins the request.
  The second request receives nothing and becomes the current request.
\<close>

theorem close_reason_without_loseConnection_counterexample:
  \<open>received (final (scenario (\<lambda>d. None) [Attach 1, Detach, WriteClose GO_AWAY, Attach 2]
       (newSession Polling 0 Application))) 2 \<noteq> [''c[3000,"Go away!"]\<newline>''] \<and>
    received (final (scenario (\<lambda>d. None) [Attach 1, Detach, WriteClose GO_AWAY, Attach 2]
       (newSession Polling 0 Application))) 2 = [] \<and>
    request (final (scenario (\<lambda>d. None) [Attach 1, Detach, WriteClose GO_AWAY, Attach 2]
       (newSession Polling 0 Application))) = Some 2\<close>
  by (simp add: scenario_def newSession_def low_defs machine_defs api_defs received_def)

text \<open>
  Claim C3, amended. The stored reason is written on an attach only after
  \<^verbatim>\<open>loseConnection\<close>: after attach, detach, \<^verbatim>\<open>writeClose(GO_AWAY)\<close>, \<^verbatim>\<open>loseConnection\<close> and
  the attach of a second request, that request has received \<^verbatim>\<open>c[3000,"Go away!"]\<close> and a
  newline, nothing else, and is finished. Without the \<^verbatim>\<open>loseConnection\<close> it has received
  nothing and is the current request, and the reason stays stored. This holds for the three
  kinds of session and both kinds of wrapped protocol.
\<close>

theorem stored_close_reason_needs_loseConnection:
  assumes "r2 \<noteq> r1"
  shows \<open>(\<exists>s'. scenario fromJSON [Attach r1, Detach, WriteClose GO_AWAY, LoseConnection, Attach r2]
                 (newSession k m w) = Inr s' \<and>
               received s' r2 = [''c[3000,"Go away!"]\<newline>''] \<and>
               finished (requests s' r2) = 1 \<and> request s' = None \<and>
               mstate s' = LoseConnectionEmptyBuffer) \<and>
         (\<exists>s'. scenario fromJSON [Attach r1, Detach, WriteClose GO_AWAY, Attach r2]
                 (newSession k m w) = Inr s' \<and>
               received s' r2 = [] \<and> finished (requests s' r2) = 0 \<and>
               request s' = Some r2 \<and> closeReason s' = Some GO_AWAY)\<close>
  using assms
  by (cases k; cases w)
     (simp_all add: scenario_def newSession_def low_defs machine_defs api_defs received_def
        closeFrame_GO_AWAY)

theorem stored_close_reason_needs_loseConnection_witness:
  \<open>received (final (scenario (\<lambda>d. None) [Attach 1, Detach, WriteClose GO_AWAY, LoseConnection, Attach 2]
       (newSession XHR 0 SockJS))) 2 = [''c[3000,"Go away!"]\<newline>'']\<close>
proof -
  have ne: "(2::nat) \<noteq> 1" by simp
  from stored_close_reason_needs_loseConnection[OF ne, of "\<lambda>d. None" XHR 0 SockJS, THEN conjunct1]
  obtain s' where "scenario (\<lambda>d. None) [Attach 1, Detach, WriteClose GO_AWAY, LoseConnection, Attach 2]
                 (newSession XHR 0 SockJS) = Inr s'"
     \<open>received s' 2 = [''c[3000,"Go away!"]\<newline>'']\<close>
    by blast
  then show ?thesis by simp
qed

section \<open>The timeout clock and an attach with pending data\<close>

text \<open>
  Claim C2 says that every attach stops the timeout clock, also the one that flushes the
  buffer. The row for attach in \<open>connectedNoTransportPending\<close> has the outputs
  \<^verbatim>\<open>_openRequest\<close> and \<^verbatim>\<open>_flushBuffer\<close> but not \<^verbatim>\<open>_beginRequest\<close>, which its sibling row in
  \<open>connectedNoTransportEmptyBuffer\<close> has: the clock started by the detach keeps running
  while the second request is attached, no finish notifier is registered for that request,
  and when the clock fires the session is disconnected. The same history without the write
  resets the clock and registers the notifier.
\<close>

theorem pending_attach_leaves_timeout_running:
  \<open>scenario (\<lambda>d. None) [Attach 1, Detach, Write [JString ''a''], Attach 2]
       (newSession XHRStreaming 100 SockJS) =
     Inr (final (scenario (\<lambda>d. None) [Attach 1, Detach, Write [JString ''a''], Attach 2]
       (newSession XHRStreaming 100 SockJS))) \<and>
    request (final (scenario (\<lambda>d. None) [Attach 1, Detach, Write [JString ''a''], Attach 2]
       (newSession XHRStreaming 100 SockJS))) = Some 2 \<and>
    timeoutCall (final (scenario (\<lambda>d. None) [Attach 1, Detach, Write [JString ''a''], Attach 2]
       (newSession XHRStreaming 100 SockJS))) \<and>
    finishedNotifier (final (scenario (\<lambda>d. None) [Attach 1, Detach, Write [JString ''a''], Attach 2]
       (newSession XHRStreaming 100 SockJS))) = None \<and>
    mstate (run (\<lambda>d. None) [Attach 1, Detach, Write [JString ''a''], Attach 2, Expire]
       (newSession XHRStreaming 100 SockJS)) = Disconnected \<and>
    \<not> timeoutCall (final (scenario (\<lambda>d. None) [Attach 1, Detach, Attach 2]
       (newSession XHRStreaming 100 SockJS))) \<and>
    finishedNotifier (final (scenario (\<lambda>d. None) [Attach 1, Detach, Attach 2]
       (newSession XHRStreaming 100 SockJS))) = Some 2\<close>
  by (simp add: scenario_def newSession_def low_defs machine_defs api_defs)

section \<open>The house and the end of a session\<close>

text \<open>
  The answer of \<^verbatim>\<open>attachToSession\<close> is \<open>False\<close> exactly for a path that does not consist of
  three non-empty segments without a dot.
\<close>

lemma validate_None_iff: "validateAndExtractSessionID p = None \<longleftrightarrow> \<not> validPath p"
  by (auto simp: validateAndExtractSessionID_def validPath_def list_ex_iff split: list.splits)

lemma attachToSession_False_iff:
  "(\<exists>h'. attachToSession f p r h = Inr (False, h')) \<longleftrightarrow> \<not> validPath p"
  unfolding validate_None_iff[symmetric]
  by (auto simp: attachToSession_def Let_def split: option.splits sum.splits)

text \<open>
  Claim C5 says that the termination hook removes the entry of the session and traps the
  failures \<open>ConnectionDone\<close>, \<open>ConnectionLost\<close> and \<open>SessionTimeout\<close>. For a session created
  by \<^verbatim>\<open>attachToSession\<close> the hook does remove the entry, but on a \<open>ConnectionDone\<close> failure
  it raises \<open>AttributeError\<close> instead of trapping, and that error is what is logged. A
  plain result is passed on and nothing is logged.
\<close>

theorem termination_hook_raises_on_failure:
  \<open>(case attachToSession \<lparr>protocolKind = XHR, factoryMaximumBytes = 0, wrappedFactory = SockJS\<rparr>
           [''server'', ''session'', ''xhr''] 1 \<lparr>sessions = Map.empty, logged = []\<rparr> of
      Inl x \<Rightarrow> False
    | Inr (ok, h) \<Rightarrow>
        ok \<and> sessions h ''session'' \<noteq> None \<and>
        sessions (terminationHooks (Failure ConnectionDone) ''session'' h) ''session'' = None \<and>
        logged (terminationHooks (Failure ConnectionDone) ''session'' h) = [Raised AttributeError] \<and>
        logged (terminationHooks Result ''session'' h) = [])\<close>
  by (simp add: attachToSession_def validateAndExtractSessionID_def buildProtocol_def
        terminationHooks_def sessionClosed_def
        newSession_def low_defs machine_defs api_defs split: sum.splits prod.splits)


section \<open>Writes while detached\<close>

lemma dataFrame_a_b: \<open>dataFrame [JString ''a'', JString ''b''] = ''a["a","b"]''\<close>
  by code_simp

text \<open>
  Claim C1, as stated, fails in its example: \<^verbatim>\<open>_bufferWrite\<close> extends the buffer with the
  elements of each written array, so after \<^verbatim>\<open>write(["a"])\<close> and \<^verbatim>\<open>write(["b"])\<close> the buffer
  is \<^verbatim>\<open>["a","b"]\<close> and the second request receives the frame \<^verbatim>\<open>a["a","b"]\<close> and a newline,
  not \<^verbatim>\<open>a[["a"],["b"]]\<close>.
\<close>

theorem buffered_writes_are_concatenated_counterexample:
  \<open>received (final (scenario (\<lambda>d. None)
       [Attach 1, Detach, Write [JString ''a''], Write [JString ''b''], Attach 2]
       (newSession Polling 0 Application))) 2 \<noteq> [''a[["a"],["b"]]\<newline>''] \<and>
    received (final (scenario (\<lambda>d. None)
       [Attach 1, Detach, Write [JString ''a''], Write [JString ''b''], Attach 2]
       (newSession Polling 0 Application))) 2 = [''a["a","b"]\<newline>''] \<and>
    buffer (final (scenario (\<lambda>d. None)
       [Attach 1, Detach, Write [JString ''a''], Write [JString ''b'']]
       (newSession Polling 0 Application))) = [JString ''a'', JString ''b'']\<close>
  by (simp add: scenario_def newSession_def low_defs machine_defs api_defs received_def
        dataFrame_a_b)

subsection \<open>Writing and attaching in the detached states\<close>

lemma write_detached:
  assumes "detached s" and "machineAlive s"
  shows "writeData d s = Inr (s\<lparr>mstate := ConnectedNoTransportPending, buffer := buffer s @ d\<rparr>)"
  using assms
  by (cases "kind s")
     (auto simp: detached_def writeData_def withMachine_def rsm_write_def upon_def bufferWrite_def
        detachFromRequest_def rsm_detach_def)

lemma writes_detached:
  assumes "detached s" and "machineAlive s"
  shows "seq (map writeData ds) s =
           Inr (if ds = [] then s
                else s\<lparr>mstate := ConnectedNoTransportPending, buffer := buffer s @ concat ds\<rparr>)"
  using assms
proof (induction ds arbitrary: s)
  case Nil
  then show ?case by simp
next
  case (Cons d ds)
  let ?s1 = "s\<lparr>mstate := ConnectedNoTransportPending, buffer := buffer s @ d\<rparr>"
  have w: "writeData d s = Inr ?s1" using Cons.prems by (rule write_detached)
  have d1: "detached ?s1" and a1: "machineAlive ?s1"
    using Cons.prems by (simp_all add: detached_def)
  show ?case
    using Cons.IH[OF d1 a1] w by simp
qed

lemma attach_pending:
  assumes "mstate t = ConnectedNoTransportPending" and "request t = None" and "machineAlive t"
    and "\<not> expired t" and "kind t = XHRStreaming \<longrightarrow> sumLen (buffer t) \<noteq> None"
  shows "\<exists>s2. makeConnectionFromRequest r t = Inr s2 \<and>
            received s2 r = received t r @ [dataFrame (buffer t) @ ''\<newline>''] \<and>
            (\<forall>r'. r' \<noteq> r \<longrightarrow> received s2 r' = received t r') \<and>
            buffer s2 = []"
  using assms
  by (cases "kind t"; cases "finishedNotifier t")
     (auto simp: makeConnectionFromRequest_def low_defs machine_defs received_def)

text \<open>
  The conditions of the amended claim are needed. With an \<^verbatim>\<open>XHRStreamingSession\<close> and a
  buffered message that has no length, the flush writes the frame and then raises
  \<open>TypeError\<close> while counting, before the buffer is emptied.
\<close>

lemma streaming_flush_of_unsized_message:
  \<open>(case scenario (\<lambda>d. None) [Attach 1, Detach, Write [JInt 2], Attach 2]
           (newSession XHRStreaming 128 SockJS) of
      Inl (e, s') \<Rightarrow> e = TypeError \<and> buffer s' = [JInt 2] \<and> request s' = Some 2 \<and>
                     received s' 2 = [dataFrame [JInt 2] @ ''\<newline>'']
    | Inr s' \<Rightarrow> False)\<close>
  by (simp add: scenario_def newSession_def low_defs machine_defs api_defs received_def)

text \<open>
  Claim C1, amended. Take any state that a session can reach, in which it is detached and
  its timeout has not expired, and any non-empty sequence of writes issued there; for an
  \<^verbatim>\<open>XHRStreamingSession\<close> every message buffered or written must have a length. Then the
  writes return, the messages of each written array are appended to the buffer in order and
  no request receives anything; the next attach returns, the attached request has received
  exactly one more frame, the data frame of the whole buffer followed by a newline, no other
  request has received anything, and the buffer is empty. In the example the frame is
  \<^verbatim>\<open>a["a","b"]\<close> and a newline.
\<close>

theorem buffered_writes_flushed_on_attach:
  assumes "s = run fromJSON as (newSession k m w)" and "detached s" and "\<not> expired s"
    and "ds \<noteq> []"
    and "kind s = XHRStreaming \<longrightarrow> sumLen (buffer s @ concat ds) \<noteq> None"
  shows \<open>\<exists>s1 s2. seq (map writeData ds) s = Inr s1 \<and>
            buffer s1 = buffer s @ concat ds \<and> requests s1 = requests s \<and>
            makeConnectionFromRequest r s1 = Inr s2 \<and>
            received s2 r = received s r @ [dataFrame (buffer s @ concat ds) @ ''\<newline>''] \<and>
            (\<forall>r'. r' \<noteq> r \<longrightarrow> received s2 r' = received s r') \<and>
            buffer s2 = []\<close>
proof -
  let ?s1 = "s\<lparr>mstate := ConnectedNoTransportPending, buffer := buffer s @ concat ds\<rparr>"
  have wf: "wellFormed s" unfolding assms(1) by (rule reachable_wellFormed)
  have alive: "machineAlive s" and none: "request s = None"
    using wf assms(2) by (auto simp: wellFormed_def consistent_def detached_def)
  have w: "seq (map writeData ds) s = Inr ?s1"
    using writes_detached[OF assms(2) alive, of ds] assms(4) by simp
  have "\<exists>s2. makeConnectionFromRequest r ?s1 = Inr s2 \<and>
            received s2 r = received ?s1 r @ [dataFrame (buffer ?s1) @ ''\<newline>''] \<and>
            (\<forall>r'. r' \<noteq> r \<longrightarrow> received s2 r' = received ?s1 r') \<and>
            buffer s2 = []"
    by (rule attach_pending) (use alive none assms(3,5) in simp_all)
  then obtain s2 where s2: "makeConnectionFromRequest r ?s1 = Inr s2"
      "received s2 r = received s r @ [dataFrame (buffer s @ concat ds) @ ''\<newline>'']"
      "\<forall>r'. r' \<noteq> r \<longrightarrow> received s2 r' = received s r'" "buffer s2 = []"
    by (auto simp: received_def)
  show ?thesis
    using w s2 by (intro exI[of _ ?s1] exI[of _ s2]) simp
qed

theorem buffered_writes_flushed_on_attach_witness:
  \<open>detached (run (\<lambda>d. None) [Attach 1, Detach] (newSession Polling 0 Application)) \<and>
    \<not> expired (run (\<lambda>d. None) [Attach 1, Detach] (newSession Polling 0 Application)) \<and>
    received (final (makeConnectionFromRequest 2
       (final (seq (map writeData [[JString ''a''], [JString ''b'']])
          (run (\<lambda>d. None) [Attach 1, Detach] (newSession Polling 0 Application)))))) 2 =
      [''a["a","b"]\<newline>''] \<and>
    buffer (final (seq (map writeData [[JString ''a''], [JString ''b'']])
          (run (\<lambda>d. None) [Attach 1, Detach] (newSession Polling 0 Application)))) =
      [JString ''a'', JString ''b''] \<and>
    buffer (final (makeConnectionFromRequest 2
       (final (seq (map writeData [[JString ''a''], [JString ''b'']])
          (run (\<lambda>d. None) [Attach 1, Detach] (newSession Polling 0 Application)))))) = []\<close>
proof -
  let ?s = "run (\<lambda>d. None) [Attach 1, Detach] (newSession Polling 0 Application)"
  let ?ds = "[[JString ''a''], [JString ''b'']]"
  have d: "detached ?s" and e: "\<not> expired ?s" and b0: "buffer ?s = []"
      and r0: "received ?s 2 = []" and k: "kind ?s = XHRStreaming \<longrightarrow> sumLen (buffer ?s @ concat ?ds) \<noteq> None"
    by (simp_all add: newSession_def low_defs machine_defs api_defs detached_def received_def)
  have ne: "?ds \<noteq> []" by simp
  from buffered_writes_flushed_on_attach[OF refl d e ne k, of 2]
  obtain s1 s2 where f: "seq (map writeData ?ds) ?s = Inr s1" "buffer s1 = buffer ?s @ concat ?ds"
      "makeConnectionFromRequest 2 s1 = Inr s2"
      "received s2 2 = received ?s 2 @ [dataFrame (buffer ?s @ concat ?ds) @ ''\<newline>'']"
      "buffer s2 = []"
    by blast
  have x: \<open>received s2 2 = [''a["a","b"]\<newline>'']\<close>
    unfolding f(4) r0 b0 by (simp add: dataFrame_a_b)
  have y: "buffer s1 = [JString ''a'', JString ''b'']"
    unfolding f(2) b0 by simp
  show ?thesis
    unfolding f(1) final.simps f(3) by (intro conjI) (rule d e x y f(5))+
qed

section \<open>XHRStreamingSession\<close>

lemma dataFrame_y: \<open>dataFrame [JString ''y''] = ''a["y"]''\<close>
  by code_simp

lemma length_dataFrame_127:
  "length (dataFrame [JString (replicate 127 (CHR ''x''))]) = 132"
  by code_simp

text \<open>
  Claim C7, as stated, fails in its second half: what the session compares with
  \<open>maximumBytes\<close> is not the number of bytes written. With \<open>maximumBytes = 128\<close>, after the
  first attach a write of one message of 127 characters puts a frame of 133 bytes on the
  request, yet the count is 127, the request stays attached, and the next write goes to the
  same request.
\<close>

theorem xhr_streaming_counts_message_lengths_counterexample:
  \<open>received (final (scenario (\<lambda>d. None)
       [Attach 1, Write [JString (replicate 127 (CHR ''x''))]]
       (newSession XHRStreaming 128 SockJS))) 1 =
      [prelude @ ''\<newline>'', ''o\<newline>'',
       dataFrame [JString (replicate 127 (CHR ''x''))] @ ''\<newline>''] \<and>
    length (dataFrame [JString (replicate 127 (CHR ''x''))] @ ''\<newline>'') = 133 \<and>
    maximumBytes (final (scenario (\<lambda>d. None)
       [Attach 1, Write [JString (replicate 127 (CHR ''x''))]]
       (newSession XHRStreaming 128 SockJS))) = 128 \<and>
    bytesWritten (final (scenario (\<lambda>d. None)
       [Attach 1, Write [JString (replicate 127 (CHR ''x''))]]
       (newSession XHRStreaming 128 SockJS))) = 127 \<and>
    request (final (scenario (\<lambda>d. None)
       [Attach 1, Write [JString (replicate 127 (CHR ''x''))]]
       (newSession XHRStreaming 128 SockJS))) = Some 1 \<and>
    received (final (scenario (\<lambda>d. None)
       [Attach 1, Write [JString (replicate 127 (CHR ''x''))], Write [JString ''y'']]
       (newSession XHRStreaming 128 SockJS))) 1 =
      [prelude @ ''\<newline>'', ''o\<newline>'',
       dataFrame [JString (replicate 127 (CHR ''x''))] @ ''\<newline>'', ''a["y"]\<newline>'']\<close>
  by (simp add: scenario_def newSession_def low_defs machine_defs api_defs received_def
        dataFrame_y length_dataFrame_127)

text \<open>
  Claim C7, amended. The first attach to an \<^verbatim>\<open>XHRStreamingSession\<close> that wraps a
  \<^verbatim>\<open>SockJSProtocol\<close> returns with the request still attached and unfinished, and the request
  has received exactly 2048 bytes \<open>h\<close> and a newline, then \<open>o\<close> and a newline; this is what
  \<^verbatim>\<open>writeOpen\<close> writes on any such session with a request. Thereafter the session counts in
  \<open>bytesWritten\<close> the lengths of the messages written, not the bytes of the frames. For a
  session in \<open>connectedHaveTransport\<close> with its request, its machine and a timeout that has
  not expired, a write of messages that all have a length puts its frame on the request;
  while the count stays below \<open>maximumBytes\<close> the request remains attached, and once the
  count reaches \<open>maximumBytes\<close> the same write finishes the request, detaches and resets the
  count, so that the next write is buffered and no longer reaches that request.
\<close>

theorem xhr_streaming_prelude_and_limit:
  \<open>(\<exists>s1. makeConnectionFromRequest r (newSession XHRStreaming m SockJS) = Inr s1 \<and>
          received s1 r = [replicate 2048 (CHR ''h'') @ ''\<newline>'', ''o\<newline>''] \<and>
          request s1 = Some r \<and> finished (requests s1 r) = 0 \<and>
          mstate s1 = ConnectedHaveTransport \<and> bytesWritten s1 = 0 \<and> maximumBytes s1 = m) \<and>
    (kind s = XHRStreaming \<and> request s = Some r \<longrightarrow>
       (\<exists>s'. writeOpen s = Inr s' \<and>
             received s' r = received s r @ [replicate 2048 (CHR ''h'') @ ''\<newline>'', ''o\<newline>''] \<and>
             request s' = Some r \<and> mstate s' = mstate s \<and>
             finished (requests s' r) = finished (requests s r))) \<and>
    (kind s = XHRStreaming \<and> mstate s = ConnectedHaveTransport \<and> request s = Some r \<and>
     machineAlive s \<and> \<not> expired s \<and> sumLen data = Some n \<longrightarrow>
       (bytesWritten s + n < maximumBytes s \<longrightarrow>
          (\<exists>s'. writeData data s = Inr s' \<and>
                received s' r = received s r @ [dataFrame data @ ''\<newline>''] \<and>
                request s' = Some r \<and> mstate s' = ConnectedHaveTransport \<and>
                finished (requests s' r) = finished (requests s r) \<and>
                bytesWritten s' = bytesWritten s + n)) \<and>
       (bytesWritten s + n \<ge> maximumBytes s \<longrightarrow>
          (\<exists>s'. writeData data s = Inr s' \<and>
                received s' r = received s r @ [dataFrame data @ ''\<newline>''] \<and>
                request s' = None \<and> mstate s' = ConnectedNoTransportEmptyBuffer \<and>
                finished (requests s' r) = finished (requests s r) + 1 \<and>
                bytesWritten s' = 0 \<and>
                (\<forall>next. \<exists>s''. writeData next s' = Inr s'' \<and> requests s'' = requests s' \<and>
                                buffer s'' = buffer s' @ next))))\<close>
proof -
  have first: "\<exists>s1. makeConnectionFromRequest r (newSession XHRStreaming m SockJS) = Inr s1 \<and>
          received s1 r = [prelude @ ''\<newline>'', ''o\<newline>''] \<and>
          request s1 = Some r \<and> finished (requests s1 r) = 0 \<and>
          mstate s1 = ConnectedHaveTransport \<and> bytesWritten s1 = 0 \<and> maximumBytes s1 = m"
    by (simp add: newSession_def makeConnectionFromRequest_def low_defs machine_defs received_def)
  have opens: "\<exists>s'. writeOpen s = Inr s' \<and>
             received s' r = received s r @ [prelude @ ''\<newline>'', ''o\<newline>''] \<and>
             request s' = Some r \<and> mstate s' = mstate s \<and>
             finished (requests s' r) = finished (requests s r)"
    if "kind s = XHRStreaming" "request s = Some r"
    using that by (simp add: low_defs machine_defs received_def)
  have below: "\<exists>s'. writeData data s = Inr s' \<and>
                received s' r = received s r @ [dataFrame data @ ''\<newline>''] \<and>
                request s' = Some r \<and> mstate s' = ConnectedHaveTransport \<and>
                finished (requests s' r) = finished (requests s r) \<and>
                bytesWritten s' = bytesWritten s + n"
    if "kind s = XHRStreaming" "mstate s = ConnectedHaveTransport" "request s = Some r"
       "machineAlive s" "sumLen data = Some n" "bytesWritten s + n < maximumBytes s"
    using that by (simp add: low_defs machine_defs received_def)
  have reached: "\<exists>s'. writeData data s = Inr s' \<and>
                received s' r = received s r @ [dataFrame data @ ''\<newline>''] \<and>
                request s' = None \<and> mstate s' = ConnectedNoTransportEmptyBuffer \<and>
                finished (requests s' r) = finished (requests s r) + 1 \<and>
                bytesWritten s' = 0 \<and>
                (\<forall>next. \<exists>s''. writeData next s' = Inr s'' \<and> requests s'' = requests s' \<and>
                                buffer s'' = buffer s' @ next)"
    if "kind s = XHRStreaming" "mstate s = ConnectedHaveTransport" "request s = Some r"
       "machineAlive s" "\<not> expired s" "sumLen data = Some n" "bytesWritten s + n \<ge> maximumBytes s"
    using that
    by (cases "finishedNotifier s") (simp_all add: low_defs machine_defs received_def)
  show ?thesis
    unfolding prelude_def[symmetric]
    using first opens below reached by blast
qed


theorem xhr_streaming_prelude_and_limit_witness:
  \<open>received (final (makeConnectionFromRequest 1 (newSession XHRStreaming 128 SockJS))) 1 =
      [replicate 2048 (CHR ''h'') @ ''\<newline>'', ''o\<newline>''] \<and>
    request (final (writeData [JString ''ignored'']
      (final (makeConnectionFromRequest 1 (newSession XHRStreaming 128 SockJS))))) = Some 1 \<and>
    request (final (writeData [JString (replicate 128 (CHR ''x''))]
      (final (makeConnectionFromRequest 1 (newSession XHRStreaming 128 SockJS))))) = None\<close>
proof -
  let ?s = "final (makeConnectionFromRequest 1 (newSession XHRStreaming 128 SockJS))"
  let ?big = "[JString (replicate 128 (CHR ''x''))]"
  note t1 = xhr_streaming_prelude_and_limit[of 1 128 ?s "[JString ''ignored'']" 7]
  note t2 = xhr_streaming_prelude_and_limit[of 1 128 ?s ?big 128]
  from t1[THEN conjunct1]
  obtain s1 where s1: "makeConnectionFromRequest 1 (newSession XHRStreaming 128 SockJS) = Inr s1"
      "received s1 1 = [replicate 2048 (CHR ''h'') @ ''\<newline>'', ''o\<newline>'']"
      "request s1 = Some 1" "mstate s1 = ConnectedHaveTransport" "bytesWritten s1 = 0"
      "maximumBytes s1 = 128"
    by blast
  have s: "?s = s1" unfolding s1(1) by simp
  have more: "kind s1 = XHRStreaming" "machineAlive s1" "\<not> expired s1"
    using s1(1)
    by (auto simp: newSession_def makeConnectionFromRequest_def low_defs machine_defs)
  have h1: "kind s1 = XHRStreaming \<and> mstate s1 = ConnectedHaveTransport \<and> request s1 = Some 1 \<and>
     machineAlive s1 \<and> \<not> expired s1 \<and> sumLen [JString ''ignored''] = Some 7"
    using s1 more by simp
  have h2: "kind s1 = XHRStreaming \<and> mstate s1 = ConnectedHaveTransport \<and> request s1 = Some 1 \<and>
     machineAlive s1 \<and> \<not> expired s1 \<and> sumLen ?big = Some 128"
    using s1 more by simp
  have lt: "bytesWritten s1 + 7 < maximumBytes s1" using s1 by simp
  have ge: "bytesWritten s1 + 128 \<ge> maximumBytes s1" using s1 by simp
  from t1[unfolded s, THEN conjunct2, THEN conjunct2, rule_format, OF h1, THEN conjunct1, rule_format, OF lt]
  obtain a where a: "writeData [JString ''ignored''] s1 = Inr a" "request a = Some 1"
    by blast
  from t2[unfolded s, THEN conjunct2, THEN conjunct2, rule_format, OF h2, THEN conjunct2, rule_format, OF ge]
  obtain b where b: "writeData ?big s1 = Inr b" "request b = None"
    by blast
  show ?thesis
    unfolding s a(1) b(1) final.simps by (intro conjI) (rule s1(2) a(2) b(2))+
qed

end
